theory Spec2Isabelle
  imports Complex_Main "HOL-Library.Sublist"
begin

section \<open>Trainer app: stored procedures and the food-scan function\<close>

text \<open>
  The development has two parts. The first embeds the schema and the PL/pgSQL functions
  \<open>handle_new_user\<close>, \<open>add_client_by_email\<close> and \<open>create_full_program\<close>
  of the schema file: tables are lists of records in insertion order, an SQL NULL is
  \<open>None\<close>, every statement takes the database and returns the database it leaves
  together with either a value or the SQL error it raised. The second part embeds the
  request handler of \<open>supabase/functions/food-scan/index.ts\<close>.

  Columns \<open>created_at\<close> (filled by \<open>now()\<close>) are left out of the rows: no
  statement of the three functions reads them.
\<close>

subsection \<open>SQL errors and JSON documents\<close>

datatype sql_error =
    not_null_violation
  | check_violation
  | unique_violation
  | foreign_key_violation
  | insufficient_privilege
  | invalid_text_representation
  | numeric_value_out_of_range
  | invalid_parameter_value

text \<open>
  A JSON document. A number is kept the way \<open>numeric\<close> keeps it: an integer
  coefficient and a display scale, standing for \<open>coefficient / 10 ^ scale\<close>
  (\<open>JNum 25 1\<close> is 2.5, \<open>JNum 3 0\<close> is 3). An object is the list of its members
  in document order.
\<close>

datatype json =
    JNull
  | JBool bool
  | JNum int nat
  | JStr string
  | JArr "json list"
  | JObj "(string \<times> json) list"

text \<open>
  The cast \<open>::jsonb\<close>: in every object a repeated key keeps its last value, and the
  keys are stored sorted, shorter keys first and keys of one length bytewise.
\<close>

fun bytes_less :: "string \<Rightarrow> string \<Rightarrow> bool" where
  "bytes_less [] [] = False"
| "bytes_less [] (d # ds) = True"
| "bytes_less (c # cs) [] = False"
| "bytes_less (c # cs) (d # ds) =
     ((of_char c :: nat) < of_char d \<or> (c = d \<and> bytes_less cs ds))"

definition key_less :: "string \<Rightarrow> string \<Rightarrow> bool" where
  "key_less k k' = (length k < length k' \<or> (length k = length k' \<and> bytes_less k k'))"

fun insert_member :: "string \<Rightarrow> 'a \<Rightarrow> (string \<times> 'a) list \<Rightarrow> (string \<times> 'a) list" where
  "insert_member k v [] = [(k, v)]"
| "insert_member k v ((k', v') # ms) =
     (if k = k' then (k, v) # ms
      else if key_less k k' then (k, v) # (k', v') # ms
      else (k', v') # insert_member k v ms)"

definition jsonb_members :: "(string \<times> 'a) list \<Rightarrow> (string \<times> 'a) list" where
  "jsonb_members ms = foldl (\<lambda>acc (k, v). insert_member k v acc) [] ms"

primrec to_jsonb :: "json \<Rightarrow> json" where
  "to_jsonb JNull = JNull"
| "to_jsonb (JBool b) = JBool b"
| "to_jsonb (JNum c s) = JNum c s"
| "to_jsonb (JStr s) = JStr s"
| "to_jsonb (JArr vs) = JArr (map to_jsonb vs)"
| "to_jsonb (JObj ms) = JObj (jsonb_members (map (map_prod id to_jsonb) ms))"

subsection \<open>Text output of numbers and documents\<close>

definition digit_char :: "nat \<Rightarrow> char" where
  "digit_char d = char_of (48 + d)"

function digits :: "nat \<Rightarrow> string" where
  "digits n = (if n < 10 then [digit_char n] else digits (n div 10) @ [digit_char (n mod 10)])"
  by pat_completeness auto
termination
  by (relation "measure id") auto

declare digits.simps [simp del]

definition numeric_out :: "int \<Rightarrow> nat \<Rightarrow> string" where
  "numeric_out c s =
     (let a = nat \<bar>c\<bar>;
          whole = digits (a div 10 ^ s);
          frac = digits (a mod 10 ^ s)
      in (if c < 0 then ''-'' else [])
         @ whole
         @ (if s = 0 then [] else ''.'' @ replicate (s - length frac) (CHR ''0'') @ frac))"

definition hex_char :: "nat \<Rightarrow> char" where
  "hex_char d = (if d < 10 then char_of (48 + d) else char_of (87 + d))"

definition escape_char :: "char \<Rightarrow> string" where
  "escape_char c =
     (if c = CHR 0x08 then [CHR 0x5C, CHR ''b'']
      else if c = CHR 0x0C then [CHR 0x5C, CHR ''f'']
      else if c = CHR 0x0A then [CHR 0x5C, CHR ''n'']
      else if c = CHR 0x0D then [CHR 0x5C, CHR ''r'']
      else if c = CHR 0x09 then [CHR 0x5C, CHR ''t'']
      else if c = CHR 0x22 then [CHR 0x5C, CHR 0x22]
      else if c = CHR 0x5C then [CHR 0x5C, CHR 0x5C]
      else if (of_char c :: nat) < 32
        then [CHR 0x5C, CHR ''u'', CHR ''0'', CHR ''0'',
              hex_char (of_char c div 16), hex_char (of_char c mod 16)]
      else [c])"

definition escape_json :: "string \<Rightarrow> string" where
  "escape_json s = [CHR 0x22] @ concat (map escape_char s) @ [CHR 0x22]"

fun commas :: "string list \<Rightarrow> string" where
  "commas [] = []"
| "commas [s] = s"
| "commas (s # t # ss) = s @ '', '' @ commas (t # ss)"

primrec jsonb_out :: "json \<Rightarrow> string" where
  "jsonb_out JNull = ''null''"
| "jsonb_out (JBool b) = (if b then ''true'' else ''false'')"
| "jsonb_out (JNum c s) = numeric_out c s"
| "jsonb_out (JStr s) = escape_json s"
| "jsonb_out (JArr vs) = ''['' @ commas (map jsonb_out vs) @ '']''"
| "jsonb_out (JObj ms) =
     ''{'' @ commas (map (\<lambda>(k, t). escape_json k @ '': '' @ t) (map (map_prod id jsonb_out) ms)) @ ''}''"

text \<open>
  The operators \<open>->\<close> and \<open>->>\<close> with a text key. Both give NULL when the left side
  is not an object or has no such member; \<open>->>\<close> also gives NULL for a JSON null, the
  bare characters of a string, and the text output of anything else.
\<close>

definition jsonb_field :: "json \<Rightarrow> string \<Rightarrow> json option" where
  "jsonb_field j k = (case j of JObj ms \<Rightarrow> map_of ms k | _ \<Rightarrow> None)"

definition jsonb_text :: "json \<Rightarrow> string option" where
  "jsonb_text j = (case j of JNull \<Rightarrow> None | JStr s \<Rightarrow> Some s | _ \<Rightarrow> Some (jsonb_out j))"

definition jsonb_field_text :: "json \<Rightarrow> string \<Rightarrow> string option" where
  "jsonb_field_text j k = (case jsonb_field j k of None \<Rightarrow> None | Some v \<Rightarrow> jsonb_text v)"

text \<open>
  \<open>jsonb_array_elements\<close> is strict: a NULL argument gives no rows. An argument that
  is not an array is an error.
\<close>

definition jsonb_array_elements :: "json option \<Rightarrow> sql_error + json list" where
  "jsonb_array_elements a =
     (case a of
        None \<Rightarrow> Inr []
      | Some (JArr vs) \<Rightarrow> Inr vs
      | Some _ \<Rightarrow> Inl invalid_parameter_value)"

subsection \<open>Casting text to INT and BIGINT\<close>

definition pg_isspace :: "char \<Rightarrow> bool" where
  "pg_isspace c = (c = CHR '' '' \<or> c = CHR 0x09 \<or> c = CHR 0x0A \<or> c = CHR 0x0B
                    \<or> c = CHR 0x0C \<or> c = CHR 0x0D)"

definition is_digit :: "char \<Rightarrow> bool" where
  "is_digit c = (48 \<le> (of_char c :: nat) \<and> (of_char c :: nat) \<le> 57)"

definition digits_value :: "string \<Rightarrow> nat" where
  "digits_value ds = foldl (\<lambda>acc c. 10 * acc + (of_char c - 48)) 0 ds"

text \<open>
  The integer input routine in its decimal syntax: blanks, an optional sign, at least one
  digit, blanks, end of text. It accumulates the negated value, so that a magnitude above
  \<open>- lo\<close> is out of range while the digits are read, before the rest of the text is
  looked at; a positive \<open>- lo\<close> itself is refused at the end. (The hexadecimal, octal
  and binary literals and the digit separators that recent servers also read are left
  out.)
\<close>

definition pg_strtoint :: "int \<Rightarrow> string \<Rightarrow> sql_error + int" where
  "pg_strtoint lo s =
     (let s1 = dropWhile pg_isspace s;
          neg = (case s1 of c # _ \<Rightarrow> c = CHR ''-'' | [] \<Rightarrow> False);
          s2 = (case s1 of c # r \<Rightarrow> if c = CHR ''-'' \<or> c = CHR ''+'' then r else s1 | [] \<Rightarrow> []);
          ds = takeWhile is_digit s2;
          rest = dropWhile pg_isspace (dropWhile is_digit s2);
          v = int (digits_value ds)
      in if ds = [] then Inl invalid_text_representation
         else if - lo < v then Inl numeric_value_out_of_range
         else if rest \<noteq> [] then Inl invalid_text_representation
         else if \<not> neg \<and> v = - lo then Inl numeric_value_out_of_range
         else Inr (if neg then - v else v))"

definition cast_int :: "string option \<Rightarrow> sql_error + int option" where
  "cast_int t =
     (case t of
        None \<Rightarrow> Inr None
      | Some s \<Rightarrow> (case pg_strtoint (- (2 ^ 31)) s of Inl e \<Rightarrow> Inl e | Inr v \<Rightarrow> Inr (Some v)))"

definition cast_bigint :: "string option \<Rightarrow> sql_error + int option" where
  "cast_bigint t =
     (case t of
        None \<Rightarrow> Inr None
      | Some s \<Rightarrow> (case pg_strtoint (- (2 ^ 63)) s of Inl e \<Rightarrow> Inl e | Inr v \<Rightarrow> Inr (Some v)))"

subsection \<open>Tables\<close>

type_synonym uuid = string

record auth_user =
  au_id :: uuid
  au_email :: "string option"
  raw_user_meta_data :: "json option"

record profile =
  p_id :: uuid
  p_full_name :: "string option"
  p_email :: "string option"
  p_role :: string

record client =
  c_trainer_id :: uuid
  c_client_id :: uuid

record exercise =
  e_id :: int
  e_name :: string
  e_description :: "string option"
  e_video_url :: "string option"
  e_creator_id :: "uuid option"

record training_program =
  tp_id :: int
  tp_name :: string
  tp_description :: "string option"
  tp_trainer_id :: uuid
  tp_client_id :: uuid

record training_day =
  td_id :: int
  td_program_id :: int
  td_name :: string
  td_day_order :: "int option"

record program_exercise =
  pe_id :: int
  pe_day_id :: int
  pe_exercise_id :: int
  pe_sets :: "int option"
  pe_reps :: "string option"
  pe_rest_period_seconds :: "int option"
  pe_notes :: "string option"
  pe_exercise_order :: "int option"

text \<open>
  The database: the tables the three functions touch, and the identity sequences of the
  three tables \<open>create_full_program\<close> inserts into (the next value each will give).
\<close>

record database =
  auth_users :: "auth_user list"
  profiles :: "profile list"
  clients :: "client list"
  exercises :: "exercise list"
  training_programs :: "training_program list"
  training_days :: "training_day list"
  program_exercises :: "program_exercise list"
  training_programs_id_seq :: int
  training_days_id_seq :: int
  program_exercises_id_seq :: int

text \<open>
  An error undoes every row change made since the statement (or the block with an
  \<open>EXCEPTION\<close> clause) began. Values drawn from a sequence are not given back.
\<close>

definition rollback :: "database \<Rightarrow> database \<Rightarrow> database" where
  "rollback db0 db1 =
     db0\<lparr>training_programs_id_seq := training_programs_id_seq db1,
         training_days_id_seq := training_days_id_seq db1,
         program_exercises_id_seq := program_exercises_id_seq db1\<rparr>"

datatype 'a outcome = Returned 'a | Raised sql_error

text \<open>
  What the caller of a function sees: the value it returned and the database it left, or
  the error it raised and the database rolled back.
\<close>

definition statement :: "database \<Rightarrow> (sql_error + 'a) \<times> database \<Rightarrow> 'a outcome \<times> database" where
  "statement db0 r =
     (case r of
        (Inr v, db1) \<Rightarrow> (Returned v, db1)
      | (Inl e, db1) \<Rightarrow> (Raised e, rollback db0 db1))"

subsection \<open>Row inserts with their constraints\<close>

text \<open>
  Each insert checks, in the order the server does: the row-level policy where the
  function runs with the caller's rights, NOT NULL and CHECK, the unique indexes, the
  foreign keys.
\<close>

definition insert_profile ::
  "database \<Rightarrow> uuid option \<Rightarrow> string option \<Rightarrow> string option \<Rightarrow> string option
     \<Rightarrow> (sql_error + unit) \<times> database" where
  "insert_profile db id_in email_in full_name_in role_in =
     (case (id_in, role_in) of
        (Some i, Some r) \<Rightarrow>
          if \<not> (r = ''trainer'' \<or> r = ''client'') then (Inl check_violation, db)
          else if i \<in> set (map p_id (profiles db)) then (Inl unique_violation, db)
          else if email_in \<noteq> None \<and> email_in \<in> set (map p_email (profiles db))
            then (Inl unique_violation, db)
          else if i \<notin> set (map au_id (auth_users db)) then (Inl foreign_key_violation, db)
          else (Inr (),
                db\<lparr>profiles := profiles db
                       @ [\<lparr>p_id = i, p_full_name = full_name_in, p_email = email_in, p_role = r\<rparr>]\<rparr>)
      | _ \<Rightarrow> (Inl not_null_violation, db))"

definition insert_client ::
  "database \<Rightarrow> uuid option \<Rightarrow> uuid option \<Rightarrow> (sql_error + unit) \<times> database" where
  "insert_client db trainer_id_in client_id_in =
     (case (trainer_id_in, client_id_in) of
        (Some t, Some c) \<Rightarrow>
          if \<lparr>c_trainer_id = t, c_client_id = c\<rparr> \<in> set (clients db) then (Inl unique_violation, db)
          else if t \<notin> set (map p_id (profiles db)) \<or> c \<notin> set (map p_id (profiles db))
            then (Inl foreign_key_violation, db)
          else (Inr (), db\<lparr>clients := clients db @ [\<lparr>c_trainer_id = t, c_client_id = c\<rparr>]\<rparr>)
      | _ \<Rightarrow> (Inl not_null_violation, db))"

text \<open>
  The policies of the three program tables, as they apply to the caller \<open>uid\<close>: a
  program row is visible to its trainer and to its client, a day row when its program is
  visible, and an insert must satisfy the \<open>FOR ALL\<close> policy of its table.
\<close>

definition visible_programs :: "uuid option \<Rightarrow> database \<Rightarrow> training_program list" where
  "visible_programs uid db =
     filter (\<lambda>p. uid = Some (tp_trainer_id p) \<or> uid = Some (tp_client_id p)) (training_programs db)"

definition visible_days :: "uuid option \<Rightarrow> database \<Rightarrow> training_day list" where
  "visible_days uid db =
     filter (\<lambda>d. td_program_id d \<in> set (map tp_id (visible_programs uid db))) (training_days db)"

definition insert_training_program ::
  "uuid option \<Rightarrow> database \<Rightarrow> string option \<Rightarrow> string option \<Rightarrow> uuid option \<Rightarrow> uuid option
     \<Rightarrow> (sql_error + int) \<times> database" where
  "insert_training_program uid db name_in description_in trainer_id_in client_id_in =
     (let new_id = training_programs_id_seq db;
          db1 = db\<lparr>training_programs_id_seq := new_id + 1\<rparr>
      in if uid = None \<or> uid \<noteq> trainer_id_in then (Inl insufficient_privilege, db1)
         else
           (case (name_in, trainer_id_in, client_id_in) of
              (Some n, Some t, Some c) \<Rightarrow>
                if new_id \<in> set (map tp_id (training_programs db)) then (Inl unique_violation, db1)
                else if t \<notin> set (map p_id (profiles db)) \<or> c \<notin> set (map p_id (profiles db))
                  then (Inl foreign_key_violation, db1)
                else (Inr new_id,
                      db1\<lparr>training_programs := training_programs db
                             @ [\<lparr>tp_id = new_id, tp_name = n, tp_description = description_in,
                                 tp_trainer_id = t, tp_client_id = c\<rparr>]\<rparr>)
            | _ \<Rightarrow> (Inl not_null_violation, db1)))"

definition insert_training_day ::
  "uuid option \<Rightarrow> database \<Rightarrow> int option \<Rightarrow> string option \<Rightarrow> int option
     \<Rightarrow> (sql_error + int) \<times> database" where
  "insert_training_day uid db program_id_in name_in day_order_in =
     (let new_id = training_days_id_seq db;
          db1 = db\<lparr>training_days_id_seq := new_id + 1\<rparr>
      in case program_id_in of
           None \<Rightarrow> (Inl insufficient_privilege, db1)
         | Some p \<Rightarrow>
             if p \<notin> set (map tp_id (visible_programs uid db)) then (Inl insufficient_privilege, db1)
             else
               (case name_in of
                  None \<Rightarrow> (Inl not_null_violation, db1)
                | Some n \<Rightarrow>
                    if new_id \<in> set (map td_id (training_days db)) then (Inl unique_violation, db1)
                    else if p \<notin> set (map tp_id (training_programs db))
                      then (Inl foreign_key_violation, db1)
                    else (Inr new_id,
                          db1\<lparr>training_days := training_days db
                                 @ [\<lparr>td_id = new_id, td_program_id = p, td_name = n,
                                     td_day_order = day_order_in\<rparr>]\<rparr>)))"

text \<open>
  \<open>UNIQUE (day_id, exercise_id, exercise_order)\<close>: two rows clash when the three
  columns are equal and none is NULL.
\<close>

definition insert_program_exercise ::
  "uuid option \<Rightarrow> database \<Rightarrow> int option \<Rightarrow> int option \<Rightarrow> int option \<Rightarrow> string option
     \<Rightarrow> int option \<Rightarrow> int option \<Rightarrow> string option \<Rightarrow> (sql_error + int) \<times> database" where
  "insert_program_exercise uid db day_id_in exercise_id_in sets_in reps_in rest_in order_in notes_in =
     (let new_id = program_exercises_id_seq db;
          db1 = db\<lparr>program_exercises_id_seq := new_id + 1\<rparr>
      in case day_id_in of
           None \<Rightarrow> (Inl insufficient_privilege, db1)
         | Some d \<Rightarrow>
             if d \<notin> set (map td_id (visible_days uid db)) then (Inl insufficient_privilege, db1)
             else
               (case exercise_id_in of
                  None \<Rightarrow> (Inl not_null_violation, db1)
                | Some x \<Rightarrow>
                    if new_id \<in> set (map pe_id (program_exercises db)) then (Inl unique_violation, db1)
                    else if order_in \<noteq> None
                            \<and> (d, x, order_in)
                                \<in> set (map (\<lambda>r. (pe_day_id r, pe_exercise_id r, pe_exercise_order r))
                                         (program_exercises db))
                      then (Inl unique_violation, db1)
                    else if d \<notin> set (map td_id (training_days db))
                            \<or> x \<notin> set (map e_id (exercises db))
                      then (Inl foreign_key_violation, db1)
                    else (Inr new_id,
                          db1\<lparr>program_exercises := program_exercises db
                                 @ [\<lparr>pe_id = new_id, pe_day_id = d, pe_exercise_id = x,
                                     pe_sets = sets_in, pe_reps = reps_in,
                                     pe_rest_period_seconds = rest_in, pe_notes = notes_in,
                                     pe_exercise_order = order_in\<rparr>]\<rparr>)))"

subsection \<open>The account-provisioning trigger\<close>

text \<open>
  \<open>handle_new_user\<close> runs after a row \<open>new\<close> has been put into \<open>auth.users\<close>.
  It is \<open>SECURITY DEFINER\<close>: no policy applies to its insert.
\<close>

definition meta_text :: "json option \<Rightarrow> string \<Rightarrow> string option" where
  "meta_text m k = (case m of None \<Rightarrow> None | Some j \<Rightarrow> jsonb_field_text j k)"

definition handle_new_user :: "database \<Rightarrow> auth_user \<Rightarrow> (sql_error + unit) \<times> database" where
  "handle_new_user db new =
     insert_profile db (Some (au_id new)) (au_email new)
       (meta_text (raw_user_meta_data new) ''full_name'')
       (meta_text (raw_user_meta_data new) ''role'')"

text \<open>
  The enclosing account creation: the insert into \<open>auth.users\<close> (a table of the
  identity service, of which only the primary key is modelled), then the trigger
  \<open>on_auth_user_created\<close> for the new row. An error of the trigger is an error of the
  insert.
\<close>

definition insert_auth_user :: "database \<Rightarrow> auth_user \<Rightarrow> (sql_error + unit) \<times> database" where
  "insert_auth_user db new =
     (if au_id new \<in> set (map au_id (auth_users db)) then (Inl unique_violation, db)
      else handle_new_user (db\<lparr>auth_users := auth_users db @ [new]\<rparr>) new)"

definition create_account :: "database \<Rightarrow> auth_user \<Rightarrow> unit outcome \<times> database" where
  "create_account db new = statement db (insert_auth_user db new)"

subsection \<open>\<open>add_client_by_email\<close>\<close>

definition json_build_object :: "(string \<times> json) list \<Rightarrow> json" where
  "json_build_object ms = JObj ms"

definition msg_not_found :: string where
  "msg_not_found = ''Nessun utente trovato con questa email.''"

definition msg_not_client :: string where
  "msg_not_client = ''L'' @ [CHR 0x27] @ ''utente trovato non '' @ [CHR 0xC3, CHR 0xA8] @ '' un cliente.''"

definition msg_added :: string where
  "msg_added = ''Cliente aggiunto con successo!''"

definition msg_already :: string where
  "msg_already = ''Questo cliente '' @ [CHR 0xC3, CHR 0xA8] @ '' gi'' @ [CHR 0xC3, CHR 0xA0]
                   @ '' stato aggiunto.''"

definition msg_unexpected :: string where
  "msg_unexpected = ''Si '' @ [CHR 0xC3, CHR 0xA8] @ '' verificato un errore imprevisto.''"

definition error_result :: "string \<Rightarrow> json" where
  "error_result m = json_build_object [(''status'', JStr ''error''), (''message'', JStr m)]"

definition client_added :: "uuid \<Rightarrow> json" where
  "client_added c =
     json_build_object
       [(''status'', JStr ''success''), (''message'', JStr msg_added), (''client_id'', JStr c)]"

text \<open>
  The statements between \<open>BEGIN\<close> and \<open>EXCEPTION\<close>. The comparison
  \<open>email = client_email\<close> is never true for a NULL on either side; \<open>SELECT INTO\<close>
  keeps the first row found and leaves the record NULL when there is none. The function
  is \<open>SECURITY DEFINER\<close>: no policy applies to its statements.
\<close>

definition add_client_by_email_block ::
  "uuid option \<Rightarrow> database \<Rightarrow> string option \<Rightarrow> (sql_error + json) \<times> database" where
  "add_client_by_email_block uid db client_email =
     (case find (\<lambda>p. client_email \<noteq> None \<and> p_email p = client_email) (profiles db) of
        None \<Rightarrow> (Inr (error_result msg_not_found), db)
      | Some client_record \<Rightarrow>
          if p_role client_record \<noteq> ''client'' then (Inr (error_result msg_not_client), db)
          else
            (case insert_client db uid (Some (p_id client_record)) of
               (Inl e, db1) \<Rightarrow> (Inl e, db1)
             | (Inr _, db1) \<Rightarrow> (Inr (client_added (p_id client_record)), db1)))"

text \<open>
  The whole function: an error of the block is caught by the \<open>EXCEPTION\<close> clause, which
  undoes the block and returns a result of its own.
\<close>

definition add_client_by_email ::
  "uuid option \<Rightarrow> database \<Rightarrow> string option \<Rightarrow> (sql_error + json) \<times> database" where
  "add_client_by_email uid db client_email =
     (case add_client_by_email_block uid db client_email of
        (Inr j, db1) \<Rightarrow> (Inr j, db1)
      | (Inl e, db1) \<Rightarrow>
          if e = unique_violation then (Inr (error_result msg_already), rollback db db1)
          else (Inr (error_result msg_unexpected), rollback db db1))"

definition call_add_client_by_email ::
  "uuid option \<Rightarrow> database \<Rightarrow> string option \<Rightarrow> json outcome \<times> database" where
  "call_add_client_by_email uid db client_email =
     statement db (add_client_by_email uid db client_email)"

subsection \<open>\<open>create_full_program\<close>\<close>

text \<open>
  The function runs with the caller's rights and has no \<open>EXCEPTION\<close> clause. The inner
  loop inserts one row per element of \<open>day_data->'exercises'\<close>, the outer loop one day
  row per element of \<open>days::jsonb\<close> followed by that day's inner loop. The casts of a
  row are evaluated before its id is drawn.
\<close>

fun exercises_loop ::
  "uuid option \<Rightarrow> int \<Rightarrow> json list \<Rightarrow> database \<Rightarrow> (sql_error + unit) \<times> database" where
  "exercises_loop uid new_day_id [] db = (Inr (), db)"
| "exercises_loop uid new_day_id (exercise_data # others) db =
     (case cast_bigint (jsonb_field_text exercise_data ''exercise_id'') of
        Inl e \<Rightarrow> (Inl e, db)
      | Inr exercise_id_v \<Rightarrow>
     (case cast_int (jsonb_field_text exercise_data ''sets'') of
        Inl e \<Rightarrow> (Inl e, db)
      | Inr sets_v \<Rightarrow>
     (case cast_int (jsonb_field_text exercise_data ''rest_period_seconds'') of
        Inl e \<Rightarrow> (Inl e, db)
      | Inr rest_v \<Rightarrow>
     (case cast_int (jsonb_field_text exercise_data ''exercise_order'') of
        Inl e \<Rightarrow> (Inl e, db)
      | Inr order_v \<Rightarrow>
     (case insert_program_exercise uid db (Some new_day_id) exercise_id_v sets_v
             (jsonb_field_text exercise_data ''reps'') rest_v order_v
             (jsonb_field_text exercise_data ''notes'') of
        (Inl e, db1) \<Rightarrow> (Inl e, db1)
      | (Inr _, db1) \<Rightarrow> exercises_loop uid new_day_id others db1)))))"

fun days_loop ::
  "uuid option \<Rightarrow> int \<Rightarrow> json list \<Rightarrow> database \<Rightarrow> (sql_error + unit) \<times> database" where
  "days_loop uid new_program_id [] db = (Inr (), db)"
| "days_loop uid new_program_id (day_data # others) db =
     (case cast_int (jsonb_field_text day_data ''day_order'') of
        Inl e \<Rightarrow> (Inl e, db)
      | Inr day_order_v \<Rightarrow>
     (case insert_training_day uid db (Some new_program_id)
             (jsonb_field_text day_data ''name'') day_order_v of
        (Inl e, db1) \<Rightarrow> (Inl e, db1)
      | (Inr new_day_id, db1) \<Rightarrow>
     (case jsonb_array_elements (jsonb_field day_data ''exercises'') of
        Inl e \<Rightarrow> (Inl e, db1)
      | Inr exercise_rows \<Rightarrow>
     (case exercises_loop uid new_day_id exercise_rows db1 of
        (Inl e, db2) \<Rightarrow> (Inl e, db2)
      | (Inr _, db2) \<Rightarrow> days_loop uid new_program_id others db2))))"

definition program_created :: "int \<Rightarrow> json" where
  "program_created new_program_id =
     json_build_object
       [(''status'', JStr ''success''), (''message'', JStr ''Program created successfully''),
        (''program_id'', JNum new_program_id 0)]"

definition create_full_program ::
  "uuid option \<Rightarrow> database \<Rightarrow> string option \<Rightarrow> string option \<Rightarrow> uuid option \<Rightarrow> json option
     \<Rightarrow> (sql_error + json) \<times> database" where
  "create_full_program uid db program_name program_description client_id_in days =
     (case insert_training_program uid db program_name program_description uid client_id_in of
        (Inl e, db1) \<Rightarrow> (Inl e, db1)
      | (Inr new_program_id, db1) \<Rightarrow>
     (case jsonb_array_elements (map_option to_jsonb days) of
        Inl e \<Rightarrow> (Inl e, db1)
      | Inr day_rows \<Rightarrow>
     (case days_loop uid new_program_id day_rows db1 of
        (Inl e, db2) \<Rightarrow> (Inl e, db2)
      | (Inr _, db2) \<Rightarrow> (Inr (program_created new_program_id), db2))))"

text \<open>The call as the client issues it: one statement.\<close>

definition call_create_full_program ::
  "uuid option \<Rightarrow> database \<Rightarrow> string option \<Rightarrow> string option \<Rightarrow> uuid option \<Rightarrow> json option
     \<Rightarrow> json outcome \<times> database" where
  "call_create_full_program uid db program_name program_description client_id_in days =
     statement db (create_full_program uid db program_name program_description client_id_in days)"

section \<open>The food-scan function\<close>

subsection \<open>JavaScript values and strings\<close>

text \<open>
  A JavaScript string is its sequence of UTF-16 code units. A value is what
  \<open>JSON.parse\<close> can give, and \<open>undefined\<close>; a number is the rational it denotes.
  An object is the list of its own properties, each key once.
\<close>

type_synonym jsstring = "nat list"

definition js :: "string \<Rightarrow> jsstring" where
  "js s = map of_char s"

datatype jsval =
    Undefined
  | Null
  | Bool bool
  | Num rat
  | Str jsstring
  | Arr "jsval list"
  | Obj "(jsstring \<times> jsval) list"

text \<open>
  An exception: an \<open>Error\<close> with its message, or a \<open>TypeError\<close> of the engine
  (whose wording is the engine's).
\<close>

datatype js_error = Error jsstring | TypeError

fun truthy :: "jsval \<Rightarrow> bool" where
  "truthy Undefined = False"
| "truthy Null = False"
| "truthy (Bool b) = b"
| "truthy (Num n) = (n \<noteq> 0)"
| "truthy (Str s) = (s \<noteq> [])"
| "truthy (Arr vs) = True"
| "truthy (Obj ps) = True"

text \<open>
  Reading a property \<open>v.name\<close>, for the names the handler uses (\<open>image\<close>,
  \<open>candidates\<close>, \<open>content\<close>, \<open>parts\<close>, \<open>text\<close>), which no prototype
  defines: an own property of an object, \<open>undefined\<close> on any other value, and a
  \<open>TypeError\<close> on \<open>undefined\<close> and \<open>null\<close>.
\<close>

fun js_member :: "jsval \<Rightarrow> jsstring \<Rightarrow> js_error + jsval" where
  "js_member Undefined k = Inl TypeError"
| "js_member Null k = Inl TypeError"
| "js_member (Obj ps) k = Inr (case map_of ps k of None \<Rightarrow> Undefined | Some v \<Rightarrow> v)"
| "js_member v k = Inr Undefined"

text \<open>Reading \<open>v[0]\<close>.\<close>

fun js_first :: "jsval \<Rightarrow> js_error + jsval" where
  "js_first Undefined = Inl TypeError"
| "js_first Null = Inl TypeError"
| "js_first (Arr vs) = Inr (case vs of [] \<Rightarrow> Undefined | v # _ \<Rightarrow> v)"
| "js_first (Str s) = Inr (case s of [] \<Rightarrow> Undefined | c # _ \<Rightarrow> Str [c])"
| "js_first (Obj ps) = Inr (case map_of ps (js ''0'') of None \<Rightarrow> Undefined | Some v \<Rightarrow> v)"
| "js_first v = Inr Undefined"

text \<open>
  \<open>s.replace(/pat/g, '')\<close> for a pattern of literal characters: every match, found
  from the left and not overlapping an earlier one, is taken out.
\<close>

function remove_all :: "'a list \<Rightarrow> 'a list \<Rightarrow> 'a list" where
  "remove_all pat s =
     (if s = [] \<or> pat = [] then s
      else if prefix pat s then remove_all pat (drop (length pat) s)
      else hd s # remove_all pat (tl s))"
  by pat_completeness auto
termination
  by (relation "measure (\<lambda>(pat, s). length s)") auto

declare remove_all.simps [simp del]

text \<open>\<open>s.trim()\<close>: white space and line terminators go from both ends.\<close>

definition js_space :: "nat \<Rightarrow> bool" where
  "js_space c =
     (c = 0x09 \<or> c = 0x0A \<or> c = 0x0B \<or> c = 0x0C \<or> c = 0x0D \<or> c = 0x20 \<or> c = 0xA0
      \<or> c = 0x1680 \<or> (0x2000 \<le> c \<and> c \<le> 0x200A) \<or> c = 0x2028 \<or> c = 0x2029
      \<or> c = 0x202F \<or> c = 0x205F \<or> c = 0x3000 \<or> c = 0xFEFF)"

definition js_trim :: "jsstring \<Rightarrow> jsstring" where
  "js_trim s = rev (dropWhile js_space (rev (dropWhile js_space s)))"

subsection \<open>Requests, responses and the outside world\<close>

record request =
  req_method :: jsstring
  req_body :: jsstring

record fetch_request =
  f_url :: jsstring
  f_method :: jsstring
  f_headers :: "(jsstring \<times> jsstring) list"
  f_payload :: jsval

record fetch_response =
  res_ok :: bool
  res_statusText :: jsstring
  res_text :: jsstring

text \<open>
  The body of a response: a text, or the text \<open>JSON.stringify\<close> gives for a value, or
  the text it gives for \<open>{ error: error.message }\<close>. The headers are those the code
  passes, under the names it writes, followed by the \<open>content-type\<close> that
  \<open>new Response\<close> adds for a text body when the code names none.
\<close>

datatype response_body = Text jsstring | Json jsval | Json_error js_error

record response =
  rsp_status :: nat
  rsp_headers :: "(jsstring \<times> jsstring) list"
  rsp_body :: response_body

text \<open>
  What the handler does not contain is a parameter: \<open>JSON.parse\<close> (also behind
  \<open>req.json()\<close> and \<open>geminiResponse.json()\<close>), giving the value or the exception,
  and \<open>fetch\<close>, giving the upstream response or the exception.
\<close>

record js_env =
  JSON_parse :: "jsstring \<Rightarrow> js_error + jsval"
  fetch :: "fetch_request \<Rightarrow> js_error + fetch_response"

subsection \<open>The handler\<close>

definition GEMINI_API_URL :: "jsstring \<Rightarrow> jsstring" where
  "GEMINI_API_URL GEMINI_API_KEY =
     js ''https://generativelanguage.googleapis.com/v1beta/models/gemini-pro-vision:generateContent?key=''
       @ GEMINI_API_KEY"

definition corsHeaders :: "(jsstring \<times> jsstring) list" where
  "corsHeaders =
     [(js ''Access-Control-Allow-Origin'', js ''*''),
      (js ''Access-Control-Allow-Headers'', js ''authorization, x-client-info, apikey, content-type'')]"

definition prompt :: jsstring where
  "prompt = js (''Analyze the attached image of food. Return a JSON object with your best estimate ''
     @ ''of the total calories, protein (in grams), carbohydrates (in grams), and fat (in grams). ''
     @ ''The JSON object should have only the following keys: 'calories_kcal', 'protein_g', 'carb_g', ''
     @ [CHR 0x27] @ ''fat_g'. Do not return any other text or explanation, only the raw JSON object.'')"

definition payload :: "jsval \<Rightarrow> jsval" where
  "payload image_data =
     Obj [(js ''contents'',
           Arr [Obj [(js ''parts'',
                      Arr [Obj [(js ''text'', Str prompt)],
                           Obj [(js ''inline_data'',
                                 Obj [(js ''mime_type'', Str (js ''image/jpeg'')),
                                      (js ''data'', image_data)])]])]])]"

definition gemini_request :: "jsstring \<Rightarrow> jsval \<Rightarrow> fetch_request" where
  "gemini_request GEMINI_API_KEY image_data =
     \<lparr>f_url = GEMINI_API_URL GEMINI_API_KEY, f_method = js ''POST'',
      f_headers = [(js ''Content-Type'', js ''application/json'')],
      f_payload = payload image_data\<rparr>"

definition and_then :: "js_error + 'a \<Rightarrow> ('a \<Rightarrow> js_error + 'b) \<Rightarrow> js_error + 'b" where
  "and_then r f = (case r of Inl e \<Rightarrow> Inl e | Inr v \<Rightarrow> f v)"

text \<open>
  \<open>geminiData.candidates[0].content.parts[0].text\<close>, as far as \<open>.replace\<close> can be
  called on it: on anything but a string the call is a \<open>TypeError\<close>.
\<close>

definition reply_text :: "jsval \<Rightarrow> js_error + jsstring" where
  "reply_text geminiData =
     and_then (js_member geminiData (js ''candidates'')) (\<lambda>candidates.
     and_then (js_first candidates) (\<lambda>candidate.
     and_then (js_member candidate (js ''content'')) (\<lambda>content.
     and_then (js_member content (js ''parts'')) (\<lambda>parts.
     and_then (js_first parts) (\<lambda>part.
     and_then (js_member part (js ''text'')) (\<lambda>t.
       case t of Str s \<Rightarrow> Inr s | _ \<Rightarrow> Inl TypeError))))))"

definition jsonString :: "jsstring \<Rightarrow> jsstring" where
  "jsonString t = js_trim (remove_all (js ''```'') (remove_all (js ''```json'') t))"

text \<open>
  The \<open>try\<close> block: its value or the exception it threw, and the requests sent
  upstream on the way.
\<close>

definition try_block ::
  "js_env \<Rightarrow> jsstring \<Rightarrow> request \<Rightarrow> (js_error + jsval) \<times> fetch_request list" where
  "try_block env GEMINI_API_KEY req =
     (case JSON_parse env (req_body req) of
        Inl e \<Rightarrow> (Inl e, [])
      | Inr parsed \<Rightarrow>
     (case js_member parsed (js ''image'') of
        Inl e \<Rightarrow> (Inl e, [])
      | Inr image_data \<Rightarrow>
          if \<not> truthy image_data then (Inl (Error (js ''No image data provided.'')), [])
          else
     (case fetch env (gemini_request GEMINI_API_KEY image_data) of
        Inl e \<Rightarrow> (Inl e, [gemini_request GEMINI_API_KEY image_data])
      | Inr geminiResponse \<Rightarrow>
          if \<not> res_ok geminiResponse
          then (Inl (Error (js ''Gemini API error: '' @ res_statusText geminiResponse
                             @ js '' - '' @ res_text geminiResponse)),
                [gemini_request GEMINI_API_KEY image_data])
          else
            (and_then (JSON_parse env (res_text geminiResponse)) (\<lambda>geminiData.
             and_then (reply_text geminiData) (\<lambda>t.
               JSON_parse env (jsonString t))),
             [gemini_request GEMINI_API_KEY image_data]))))"

definition handler :: "js_env \<Rightarrow> jsstring \<Rightarrow> request \<Rightarrow> response \<times> fetch_request list" where
  "handler env GEMINI_API_KEY req =
     (if req_method req = js ''OPTIONS''
      then (\<lparr>rsp_status = 200,
             rsp_headers = corsHeaders @ [(js ''content-type'', js ''text/plain;charset=UTF-8'')],
             rsp_body = Text (js ''ok'')\<rparr>, [])
      else
        (case try_block env GEMINI_API_KEY req of
           (Inr nutritionData, sent) \<Rightarrow>
             (\<lparr>rsp_status = 200,
               rsp_headers = corsHeaders @ [(js ''Content-Type'', js ''application/json'')],
               rsp_body = Json nutritionData\<rparr>, sent)
         | (Inl error, sent) \<Rightarrow>
             (\<lparr>rsp_status = 400,
               rsp_headers = corsHeaders @ [(js ''Content-Type'', js ''application/json'')],
               rsp_body = Json_error error\<rparr>, sent)))"


section \<open>Notions used by the properties\<close>

subsection \<open>For the stored procedures\<close>

text \<open>The rows of a database, without its sequences.\<close>

definition tables ::
  "database \<Rightarrow> auth_user list \<times> profile list \<times> client list \<times> exercise list
     \<times> training_program list \<times> training_day list \<times> program_exercise list" where
  "tables db =
     (auth_users db, profiles db, clients db, exercises db, training_programs db,
      training_days db, program_exercises db)"

text \<open>
  A typed program document, and the JSON the client sends for it: the shape
  \<open>{ name, day_order, exercises: [ { exercise_id, sets, reps, rest_period_seconds,
  exercise_order, notes } ] }\<close> of the interface, integers as JSON numbers, an absent
  optional value as JSON null.
\<close>

record exercise_descriptor =
  xd_exercise_id :: int
  xd_sets :: "int option"
  xd_reps :: "string option"
  xd_rest_period_seconds :: "int option"
  xd_exercise_order :: "int option"
  xd_notes :: "string option"

record day_descriptor =
  dd_name :: string
  dd_day_order :: "int option"
  dd_exercises :: "exercise_descriptor list"

definition encode_int :: "int option \<Rightarrow> json" where
  "encode_int v = (case v of None \<Rightarrow> JNull | Some n \<Rightarrow> JNum n 0)"

definition encode_text :: "string option \<Rightarrow> json" where
  "encode_text v = (case v of None \<Rightarrow> JNull | Some s \<Rightarrow> JStr s)"

definition encode_exercise :: "exercise_descriptor \<Rightarrow> json" where
  "encode_exercise x =
     JObj [(''exercise_id'', JNum (xd_exercise_id x) 0),
           (''sets'', encode_int (xd_sets x)),
           (''reps'', encode_text (xd_reps x)),
           (''rest_period_seconds'', encode_int (xd_rest_period_seconds x)),
           (''exercise_order'', encode_int (xd_exercise_order x)),
           (''notes'', encode_text (xd_notes x))]"

definition encode_day :: "day_descriptor \<Rightarrow> json" where
  "encode_day d =
     JObj [(''name'', JStr (dd_name d)),
           (''day_order'', encode_int (dd_day_order d)),
           (''exercises'', JArr (map encode_exercise (dd_exercises d)))]"

definition encode_days :: "day_descriptor list \<Rightarrow> json" where
  "encode_days ds = JArr (map encode_day ds)"

text \<open>
  The rows a document stands for, read off the specification: one day row per day
  descriptor, in input order, with consecutive ids from \<open>next_id\<close> on; under each day
  one assignment row per exercise descriptor, in input order, carrying the id of that
  day's row.
\<close>

fun expected_exercises :: "int \<Rightarrow> int \<Rightarrow> exercise_descriptor list \<Rightarrow> program_exercise list" where
  "expected_exercises day_id next_id [] = []"
| "expected_exercises day_id next_id (x # xs) =
     \<lparr>pe_id = next_id, pe_day_id = day_id, pe_exercise_id = xd_exercise_id x,
      pe_sets = xd_sets x, pe_reps = xd_reps x,
      pe_rest_period_seconds = xd_rest_period_seconds x, pe_notes = xd_notes x,
      pe_exercise_order = xd_exercise_order x\<rparr>
     # expected_exercises day_id (next_id + 1) xs"

fun expected_days :: "int \<Rightarrow> int \<Rightarrow> day_descriptor list \<Rightarrow> training_day list" where
  "expected_days program_id next_id [] = []"
| "expected_days program_id next_id (d # ds) =
     \<lparr>td_id = next_id, td_program_id = program_id, td_name = dd_name d,
      td_day_order = dd_day_order d\<rparr>
     # expected_days program_id (next_id + 1) ds"

fun expected_assignments :: "int \<Rightarrow> int \<Rightarrow> day_descriptor list \<Rightarrow> program_exercise list" where
  "expected_assignments next_day_id next_id [] = []"
| "expected_assignments next_day_id next_id (d # ds) =
     expected_exercises next_day_id next_id (dd_exercises d)
     @ expected_assignments (next_day_id + 1) (next_id + int (length (dd_exercises d))) ds"

text \<open>The two conditions of a registration that the profile insert checks.\<close>

definition role_ok :: "auth_user \<Rightarrow> bool" where
  "role_ok new =
     (meta_text (raw_user_meta_data new) ''role'' = Some ''trainer''
      \<or> meta_text (raw_user_meta_data new) ''role'' = Some ''client'')"

definition email_taken :: "database \<Rightarrow> auth_user \<Rightarrow> bool" where
  "email_taken db new =
     (au_email new \<noteq> None \<and> au_email new \<in> set (map p_email (profiles db)))"

subsection \<open>For the food-scan function\<close>

definition is_number :: "jsval \<Rightarrow> bool" where
  "is_number v = (case v of Num n \<Rightarrow> True | _ \<Rightarrow> False)"

definition nutrition_keys :: "jsstring list" where
  "nutrition_keys = [js ''calories_kcal'', js ''protein_g'', js ''carb_g'', js ''fat_g'']"

text \<open>A mapping with exactly the four numeric fields.\<close>

definition four_numeric_fields :: "jsval \<Rightarrow> bool" where
  "four_numeric_fields v =
     (case v of
        Obj ps \<Rightarrow> distinct (map fst ps) \<and> set (map fst ps) = set nutrition_keys
                  \<and> list_all is_number (map snd ps)
      | _ \<Rightarrow> False)"

text \<open>
  The body of the request is JSON whose \<open>image\<close> is missing, \<open>null\<close> or the
  empty string.
\<close>

definition image_missing :: "js_env \<Rightarrow> request \<Rightarrow> bool" where
  "image_missing env req =
     (case JSON_parse env (req_body req) of
        Inl e \<Rightarrow> False
      | Inr parsed \<Rightarrow> js_member parsed (js ''image'') = Inr Undefined
                       \<or> js_member parsed (js ''image'') = Inr Null
                       \<or> js_member parsed (js ''image'') = Inr (Str []))"

text \<open>The pattern occurs somewhere in the text.\<close>

fun occurs :: "'a list \<Rightarrow> 'a list \<Rightarrow> bool" where
  "occurs pat [] = (pat = [])"
| "occurs pat (c # cs) = (prefix pat (c # cs) \<or> occurs pat cs)"

section \<open>Example data\<close>

definition example_db :: database where
  "example_db =
     \<lparr>auth_users =
        [\<lparr>au_id = ''trainer-1'', au_email = Some ''coach@example.org'',
           raw_user_meta_data = Some (JObj [(''role'', JStr ''trainer''), (''full_name'', JStr ''Coach'')])\<rparr>,
         \<lparr>au_id = ''client-1'', au_email = Some ''ann@example.org'',
           raw_user_meta_data = Some (JObj [(''role'', JStr ''client''), (''full_name'', JStr ''Ann'')])\<rparr>],
      profiles =
        [\<lparr>p_id = ''trainer-1'', p_full_name = Some ''Coach'', p_email = Some ''coach@example.org'',
           p_role = ''trainer''\<rparr>,
         \<lparr>p_id = ''client-1'', p_full_name = Some ''Ann'', p_email = Some ''ann@example.org'',
           p_role = ''client''\<rparr>],
      clients = [],
      exercises =
        [\<lparr>e_id = 7, e_name = ''Squat'', e_description = None, e_video_url = None,
           e_creator_id = None\<rparr>,
         \<lparr>e_id = 9, e_name = ''Bench press'', e_description = None, e_video_url = None,
           e_creator_id = Some ''trainer-1''\<rparr>],
      training_programs =
        [\<lparr>tp_id = 1, tp_name = ''Warm-up'', tp_description = None, tp_trainer_id = ''trainer-1'',
           tp_client_id = ''client-1''\<rparr>],
      training_days =
        [\<lparr>td_id = 1, td_program_id = 1, td_name = ''Only day'', td_day_order = Some 1\<rparr>],
      program_exercises =
        [\<lparr>pe_id = 1, pe_day_id = 1, pe_exercise_id = 7, pe_sets = Some 2, pe_reps = Some ''10'',
           pe_rest_period_seconds = None, pe_notes = None, pe_exercise_order = Some 1\<rparr>],
      training_programs_id_seq = 2,
      training_days_id_seq = 2,
      program_exercises_id_seq = 2\<rparr>"

definition push_pull_legs :: "day_descriptor list" where
  "push_pull_legs =
     [\<lparr>dd_name = ''Day 1'', dd_day_order = Some 1,
       dd_exercises =
         [\<lparr>xd_exercise_id = 7, xd_sets = Some 3, xd_reps = Some ''8-12'',
           xd_rest_period_seconds = Some 90, xd_exercise_order = Some 1, xd_notes = None\<rparr>]\<rparr>,
      \<lparr>dd_name = ''Day 2'', dd_day_order = Some 2,
       dd_exercises =
         [\<lparr>xd_exercise_id = 9, xd_sets = Some 4, xd_reps = Some ''5'',
           xd_rest_period_seconds = Some 120, xd_exercise_order = Some 1,
           xd_notes = Some ''slow''\<rparr>]\<rparr>]"

text \<open>A document whose second assignment names an exercise (8) that is not in the library.\<close>

definition unknown_exercise :: "day_descriptor list" where
  "unknown_exercise =
     [\<lparr>dd_name = ''Day 1'', dd_day_order = Some 1,
       dd_exercises =
         [\<lparr>xd_exercise_id = 7, xd_sets = Some 3, xd_reps = Some ''8-12'',
           xd_rest_period_seconds = Some 90, xd_exercise_order = Some 1, xd_notes = None\<rparr>,
          \<lparr>xd_exercise_id = 8, xd_sets = Some 4, xd_reps = Some ''5'',
           xd_rest_period_seconds = Some 120, xd_exercise_order = Some 2, xd_notes = None\<rparr>]\<rparr>]"

text \<open>A document whose \<open>sets\<close> is not a number.\<close>

definition malformed_sets :: json where
  "malformed_sets =
     JArr [JObj [(''name'', JStr ''Day 1''), (''day_order'', JNum 1 0),
                 (''exercises'',
                  JArr [JObj [(''exercise_id'', JNum 7 0), (''sets'', JStr ''three''),
                              (''reps'', JStr ''8-12'')]])]]"

text \<open>
  A document whose second day has no \<open>name\<close>; its first day is complete and has one
  assignment.
\<close>

definition nameless_day :: json where
  "nameless_day =
     JArr [JObj [(''name'', JStr ''Day 1''), (''day_order'', JNum 1 0),
                 (''exercises'',
                  JArr [JObj [(''exercise_id'', JNum 7 0), (''sets'', JNum 3 0),
                              (''reps'', JStr ''8-12''), (''exercise_order'', JNum 1 0)]])],
           JObj [(''day_order'', JNum 2 0), (''exercises'', JArr [])]]"

text \<open>Two registrations: one without \<open>full_name\<close>, one with a role the schema does not know.\<close>

definition new_client :: auth_user where
  "new_client =
     \<lparr>au_id = ''client-2'', au_email = Some ''bob@example.org'',
      raw_user_meta_data = Some (JObj [(''role'', JStr ''client'')])\<rparr>"

definition new_admin :: auth_user where
  "new_admin =
     \<lparr>au_id = ''admin-1'', au_email = Some ''root@example.org'',
      raw_user_meta_data = Some (JObj [(''role'', JStr ''admin''), (''full_name'', JStr ''Root'')])\<rparr>"

text \<open>
  A \<open>JSON.parse\<close> known at finitely many texts (and refusing every other text), and
  an upstream service that answers every request with one body. On the example requests
  the handler parses three texts, each in the table: the body of the request, the body of
  the upstream reply, and the text of the reply with its fences taken out.
\<close>

definition table_parse :: "(jsstring \<times> jsval) list \<Rightarrow> jsstring \<Rightarrow> js_error + jsval" where
  "table_parse table s =
     (case map_of table s of
        None \<Rightarrow> Inl (Error (js ''Unexpected token''))
      | Some v \<Rightarrow> Inr v)"

definition json_quote :: "jsstring \<Rightarrow> jsstring" where
  "json_quote s =
     [34] @ concat (map (\<lambda>c. if c = 34 then [92, 34] else if c = 92 then [92, 92]
                               else if c = 10 then [92, 110] else [c]) s) @ [34]"

definition upstream_body :: "jsstring \<Rightarrow> jsstring" where
  \<open>upstream_body t =
     js ''{"candidates":[{"content":{"parts":[{"text":'' @ json_quote t @ js ''}]}}]}''\<close>

definition upstream_data :: "jsstring \<Rightarrow> jsval" where
  "upstream_data t =
     Obj [(js ''candidates'',
           Arr [Obj [(js ''content'', Obj [(js ''parts'', Arr [Obj [(js ''text'', Str t)]])])]])]"

definition example_request :: request where
  \<open>example_request = \<lparr>req_method = js ''POST'', req_body = js ''{"image":"QUJD"}''\<rparr>\<close>

definition example_env :: "jsstring \<Rightarrow> (jsstring \<times> jsval) list \<Rightarrow> js_env" where
  \<open>example_env t table =
     \<lparr>JSON_parse =
        table_parse
          ([(js ''{"image":"QUJD"}'', Obj [(js ''image'', Str (js ''QUJD''))]),
            (js ''{"image":""}'', Obj [(js ''image'', Str [])]),
            (js ''{}'', Obj []),
            (upstream_body t, upstream_data t)] @ table),
      fetch = (\<lambda>r. Inr \<lparr>res_ok = True, res_statusText = js ''OK'', res_text = upstream_body t\<rparr>)\<rparr>\<close>

definition reply_unknown :: jsstring where
  \<open>reply_unknown = js ''```json'' @ [10] @ js ''{"calories_kcal":"unknown"}'' @ [10] @ js ''```''\<close>

definition table_unknown :: "(jsstring \<times> jsval) list" where
  \<open>table_unknown =
     [(js ''{"calories_kcal":"unknown"}'', Obj [(js ''calories_kcal'', Str (js ''unknown''))])]\<close>

definition reply_meal :: jsstring where
  \<open>reply_meal = [32] @ js ''```json'' @ [10]
     @ js ''{"calories_kcal":520,"protein_g":31,"carb_g":48,"fat_g":22}'' @ [10] @ js ''```'' @ [10]\<close>

definition meal_text :: jsstring where
  \<open>meal_text = js ''{"calories_kcal":520,"protein_g":31,"carb_g":48,"fat_g":22}''\<close>

definition meal :: jsval where
  "meal = Obj [(js ''calories_kcal'', Num 520), (js ''protein_g'', Num 31),
               (js ''carb_g'', Num 48), (js ''fat_g'', Num 22)]"

text \<open>The text and the value of a request whose \<open>image\<close> is \<open>null\<close>.\<close>

definition null_image :: "(jsstring \<times> jsval) list" where
  \<open>null_image = [(js ''{"image":null}'', Obj [(js ''image'', Null)])]\<close>

definition reply_note :: jsstring where
  \<open>reply_note = js ''```json{"note":"```"}```''\<close>

definition table_note :: "(jsstring \<times> jsval) list" where
  \<open>table_note =
     [(js ''{"note":""}'', Obj [(js ''note'', Str [])]),
      (js ''{"note":"```"}'', Obj [(js ''note'', Str (js ''```''))])]\<close>


section \<open>Properties of the stored procedures\<close>

subsection \<open>Auxiliary facts\<close>

lemma find_SomeD: "find P xs = Some x \<Longrightarrow> x \<in> set xs \<and> P x"
  by (induction xs) (auto split: if_splits)

lemma tables_rollback: "tables (rollback db db1) = tables db"
  by (simp add: tables_def rollback_def)

lemma insert_training_program_Inr:
  assumes "insert_training_program uid db n_in d t_in c_in = (Inr i, db1)"
  shows "\<exists>n t c. n_in = Some n \<and> t_in = Some t \<and> c_in = Some c \<and> uid = Some t
           \<and> i = training_programs_id_seq db
           \<and> i \<notin> set (map tp_id (training_programs db))
           \<and> db1 = db\<lparr>training_programs_id_seq := training_programs_id_seq db + 1,
                      training_programs := training_programs db
                        @ [\<lparr>tp_id = training_programs_id_seq db, tp_name = n, tp_description = d,
                            tp_trainer_id = t, tp_client_id = c\<rparr>]\<rparr>"
  using assms
  by (auto simp: insert_training_program_def Let_def split: option.splits if_splits)

subsection \<open>Atomicity of \<open>create_full_program\<close>\<close>

text \<open>
  An error at any level is an error of the function. The program insert comes first; a
  \<open>days\<close> value that is not an array stops the function after it; the outer loop
  carries on from the database the earlier days left, and so does the inner loop; an error
  of a day insert, of the inner loop or of an assignment insert ends the loop it is in
  with that error.
\<close>

lemma program_insert_error:
  "insert_training_program uid db program_name program_description uid client_id_in = (Inl e, db1)
     \<Longrightarrow> create_full_program uid db program_name program_description client_id_in days
           = (Inl e, db1)"
  by (simp add: create_full_program_def)

lemma days_loop_error:
  "insert_training_program uid db program_name program_description uid client_id_in
       = (Inr new_program_id, db1)
     \<Longrightarrow> jsonb_array_elements (map_option to_jsonb days) = Inr day_rows
     \<Longrightarrow> days_loop uid new_program_id day_rows db1 = (Inl e, db2)
     \<Longrightarrow> create_full_program uid db program_name program_description client_id_in days
           = (Inl e, db2)"
  by (simp add: create_full_program_def)

lemma days_loop_append:
  "days_loop uid new_program_id earlier db = (Inr u, db1)
     \<Longrightarrow> days_loop uid new_program_id (earlier @ later) db = days_loop uid new_program_id later db1"
  by (induction earlier arbitrary: db) (auto split: sum.splits prod.splits)

lemma exercises_loop_append:
  "exercises_loop uid new_day_id earlier db = (Inr u, db1)
     \<Longrightarrow> exercises_loop uid new_day_id (earlier @ later) db = exercises_loop uid new_day_id later db1"
  by (induction earlier arbitrary: db) (auto split: sum.splits prod.splits)

lemma day_insert_error:
  "cast_int (jsonb_field_text day_data ''day_order'') = Inr day_order_v
     \<Longrightarrow> insert_training_day uid db (Some new_program_id) (jsonb_field_text day_data ''name'')
           day_order_v = (Inl e, db1)
     \<Longrightarrow> days_loop uid new_program_id (day_data # others) db = (Inl e, db1)"
  by simp

lemma exercises_loop_error:
  "cast_int (jsonb_field_text day_data ''day_order'') = Inr day_order_v
     \<Longrightarrow> insert_training_day uid db (Some new_program_id) (jsonb_field_text day_data ''name'')
           day_order_v = (Inr new_day_id, db1)
     \<Longrightarrow> jsonb_array_elements (jsonb_field day_data ''exercises'') = Inr exercise_rows
     \<Longrightarrow> exercises_loop uid new_day_id exercise_rows db1 = (Inl e, db2)
     \<Longrightarrow> days_loop uid new_program_id (day_data # others) db = (Inl e, db2)"
  by simp

lemma assignment_insert_error:
  "cast_bigint (jsonb_field_text exercise_data ''exercise_id'') = Inr exercise_id_v
     \<Longrightarrow> cast_int (jsonb_field_text exercise_data ''sets'') = Inr sets_v
     \<Longrightarrow> cast_int (jsonb_field_text exercise_data ''rest_period_seconds'') = Inr rest_v
     \<Longrightarrow> cast_int (jsonb_field_text exercise_data ''exercise_order'') = Inr order_v
     \<Longrightarrow> insert_program_exercise uid db (Some new_day_id) exercise_id_v sets_v
           (jsonb_field_text exercise_data ''reps'') rest_v order_v
           (jsonb_field_text exercise_data ''notes'') = (Inl e, db1)
     \<Longrightarrow> exercises_loop uid new_day_id (exercise_data # others) db = (Inl e, db1)"
  by simp

text \<open>
  Until the error the function works on the tables: when it fails after the program
  insert, the database it was working on holds the new program row.
\<close>

lemma insert_program_exercise_programs:
  "training_programs (snd (insert_program_exercise uid db d x s r rp ord n)) = training_programs db"
  by (simp add: insert_program_exercise_def Let_def split: option.splits)

lemma insert_training_day_programs:
  "training_programs (snd (insert_training_day uid db p n ord)) = training_programs db"
  by (simp add: insert_training_day_def Let_def split: option.splits)

lemma exercises_loop_programs:
  "training_programs (snd (exercises_loop uid new_day_id exercise_rows db)) = training_programs db"
proof (induction exercise_rows arbitrary: db)
  case Nil
  show ?case by simp
next
  case (Cons exercise_data others)
  show ?case
    using Cons.IH insert_program_exercise_programs
    by (auto split: sum.splits prod.splits) (metis snd_conv)+
qed

lemma days_loop_programs:
  "training_programs (snd (days_loop uid new_program_id day_rows db)) = training_programs db"
proof (induction day_rows arbitrary: db)
  case Nil
  show ?case by simp
next
  case (Cons day_data others)
  show ?case
    using Cons.IH insert_training_day_programs exercises_loop_programs
    by (auto split: sum.splits prod.splits) (metis snd_conv)+
qed

lemma program_row_written_before_failure:
  assumes "insert_training_program uid db program_name program_description uid client_id_in
             = (Inr new_program_id, db1)"
    and "create_full_program uid db program_name program_description client_id_in days = (Inl e, db2)"
  shows "length (training_programs db2) = length (training_programs db) + 1"
proof -
  from insert_training_program_Inr [OF assms(1)]
  have one: "length (training_programs db1) = length (training_programs db) + 1"
    by auto
  have "training_programs db2 = training_programs db1"
    using assms days_loop_programs [of uid new_program_id _ db1]
    by (auto simp: create_full_program_def split: sum.splits prod.splits) (metis snd_conv)
  with one show ?thesis
    by simp
qed

text \<open>
  A loop that went through its rows before a position carries on with the row at that
  position, from the database they left. A cast that fails ends the loop it is in, like an
  insert that fails; so does an \<open>exercises\<close> value that is not an array. Of the casts
  of one row the first that fails, in the order of the columns, gives the error.
\<close>

lemma days_loop_at:
  assumes "i < length day_rows"
    and "days_loop uid new_program_id (take i day_rows) db = (Inr u, db1)"
  shows "days_loop uid new_program_id day_rows db
           = days_loop uid new_program_id (day_rows ! i # drop (Suc i) day_rows) db1"
  using days_loop_append [OF assms(2), of "day_rows ! i # drop (Suc i) day_rows"]
    id_take_nth_drop [OF assms(1)]
  by simp

lemma exercises_loop_at:
  assumes "j < length exercise_rows"
    and "exercises_loop uid new_day_id (take j exercise_rows) db = (Inr u, db1)"
  shows "exercises_loop uid new_day_id exercise_rows db
           = exercises_loop uid new_day_id (exercise_rows ! j # drop (Suc j) exercise_rows) db1"
  using exercises_loop_append [OF assms(2), of "exercise_rows ! j # drop (Suc j) exercise_rows"]
    id_take_nth_drop [OF assms(1)]
  by simp

lemma day_order_cast_error:
  "cast_int (jsonb_field_text day_data ''day_order'') = Inl e
     \<Longrightarrow> days_loop uid new_program_id (day_data # others) db = (Inl e, db)"
  by simp

lemma assignment_cast_error:
  "cast_bigint (jsonb_field_text exercise_data ''exercise_id'') = Inl e
     \<Longrightarrow> exercises_loop uid new_day_id (exercise_data # others) db = (Inl e, db)"
  "cast_bigint (jsonb_field_text exercise_data ''exercise_id'') = Inr exercise_id_v
     \<Longrightarrow> cast_int (jsonb_field_text exercise_data ''sets'') = Inl e
     \<Longrightarrow> exercises_loop uid new_day_id (exercise_data # others) db = (Inl e, db)"
  "cast_bigint (jsonb_field_text exercise_data ''exercise_id'') = Inr exercise_id_v
     \<Longrightarrow> cast_int (jsonb_field_text exercise_data ''sets'') = Inr sets_v
     \<Longrightarrow> cast_int (jsonb_field_text exercise_data ''rest_period_seconds'') = Inl e
     \<Longrightarrow> exercises_loop uid new_day_id (exercise_data # others) db = (Inl e, db)"
  "cast_bigint (jsonb_field_text exercise_data ''exercise_id'') = Inr exercise_id_v
     \<Longrightarrow> cast_int (jsonb_field_text exercise_data ''sets'') = Inr sets_v
     \<Longrightarrow> cast_int (jsonb_field_text exercise_data ''rest_period_seconds'') = Inr rest_v
     \<Longrightarrow> cast_int (jsonb_field_text exercise_data ''exercise_order'') = Inl e
     \<Longrightarrow> exercises_loop uid new_day_id (exercise_data # others) db = (Inl e, db)"
  by simp_all

lemma first_cast_error:
  assumes "find isl [c1, c2, c3, c4] = Some (Inl e)"
  shows "c1 = Inl e
       \<or> (\<exists>v1. c1 = Inr v1 \<and> (c2 = Inl e
       \<or> (\<exists>v2. c2 = Inr v2 \<and> (c3 = Inl e
       \<or> (\<exists>v3. c3 = Inr v3 \<and> c4 = Inl e)))))"
  using assms by (cases c1; cases c2; cases c3; cases c4) simp_all

lemma days_not_array_error:
  "insert_training_program uid db program_name program_description uid client_id_in
       = (Inr new_program_id, db1)
     \<Longrightarrow> jsonb_array_elements (map_option to_jsonb days) = Inl e
     \<Longrightarrow> create_full_program uid db program_name program_description client_id_in days
           = (Inl e, db1)"
  by (simp add: create_full_program_def)

lemma exercises_not_array_error:
  "cast_int (jsonb_field_text day_data ''day_order'') = Inr day_order_v
     \<Longrightarrow> insert_training_day uid db (Some new_program_id) (jsonb_field_text day_data ''name'')
           day_order_v = (Inr new_day_id, db1)
     \<Longrightarrow> jsonb_array_elements (jsonb_field day_data ''exercises'') = Inl e
     \<Longrightarrow> days_loop uid new_program_id (day_data # others) db = (Inl e, db1)"
  by simp

text \<open>
  Claim C1. Let one step of a call fail with the error \<open>e\<close>:
  \<^item> the program insert; or, the program row being inserted,
  \<^item> the reading of a \<open>days\<close> value that is not an array; or, the days before
    position \<open>i\<close> having gone through with all their assignments,
  \<^item> the day insert at position \<open>i\<close>: the cast of its \<open>day_order\<close> (a
    malformed number) or the insert of the row (policy, NOT NULL, unique index, foreign
    key); or, the day row being inserted,
  \<^item> the reading of an \<open>exercises\<close> value that is not an array; or, the assignments
    of that day before position \<open>j\<close> having gone through,
  \<^item> the assignment insert at position \<open>(i, j)\<close>: the first cast of its row that
    fails, in the order \<open>exercise_id\<close>, \<open>sets\<close>, \<open>rest_period_seconds\<close>,
    \<open>exercise_order\<close>, or the insert of the row (a bad exercise id is a foreign key
    violation).

  Then the call raises \<open>e\<close>, and the database it leaves has in
  \<open>training_programs\<close>, \<open>training_days\<close> and \<open>program_exercises\<close>, as in
  every other table, exactly the rows it had before the call: the program row, the day
  rows and the assignment rows inserted before the failure are gone. Only the sequences
  keep the values they gave out. (That the rows of an aborted statement are invisible to
  other sessions while it runs is the server's transaction isolation and is not part of
  this sequential model.)
\<close>

theorem create_full_program_rolls_back:
  assumes
    "insert_training_program uid db program_name program_description uid client_id_in = (Inl e, db1)
     \<or> insert_training_program uid db program_name program_description uid client_id_in
          = (Inr new_program_id, db1)
       \<and> (jsonb_array_elements (map_option to_jsonb days) = Inl e
          \<or> jsonb_array_elements (map_option to_jsonb days) = Inr day_rows
            \<and> i < length day_rows
            \<and> days_loop uid new_program_id (take i day_rows) db1 = (Inr (), db2)
            \<and> (cast_int (jsonb_field_text (day_rows ! i) ''day_order'') = Inl e
               \<or> cast_int (jsonb_field_text (day_rows ! i) ''day_order'') = Inr day_order_v
                 \<and> (insert_training_day uid db2 (Some new_program_id)
                        (jsonb_field_text (day_rows ! i) ''name'') day_order_v = (Inl e, db3)
                    \<or> insert_training_day uid db2 (Some new_program_id)
                         (jsonb_field_text (day_rows ! i) ''name'') day_order_v
                         = (Inr new_day_id, db3)
                      \<and> (jsonb_array_elements (jsonb_field (day_rows ! i) ''exercises'') = Inl e
                         \<or> jsonb_array_elements (jsonb_field (day_rows ! i) ''exercises'')
                              = Inr exercise_rows
                           \<and> j < length exercise_rows
                           \<and> exercises_loop uid new_day_id (take j exercise_rows) db3
                               = (Inr (), db4)
                           \<and> (find isl
                                 [cast_bigint (jsonb_field_text (exercise_rows ! j) ''exercise_id''),
                                  cast_int (jsonb_field_text (exercise_rows ! j) ''sets''),
                                  cast_int (jsonb_field_text (exercise_rows ! j) ''rest_period_seconds''),
                                  cast_int (jsonb_field_text (exercise_rows ! j) ''exercise_order'')]
                                = Some (Inl e)
                              \<or> cast_bigint (jsonb_field_text (exercise_rows ! j) ''exercise_id'')
                                   = Inr exercise_id_v
                                \<and> cast_int (jsonb_field_text (exercise_rows ! j) ''sets'')
                                   = Inr sets_v
                                \<and> cast_int (jsonb_field_text (exercise_rows ! j) ''rest_period_seconds'')
                                   = Inr rest_v
                                \<and> cast_int (jsonb_field_text (exercise_rows ! j) ''exercise_order'')
                                   = Inr order_v
                                \<and> insert_program_exercise uid db4 (Some new_day_id) exercise_id_v
                                     sets_v (jsonb_field_text (exercise_rows ! j) ''reps'') rest_v
                                     order_v (jsonb_field_text (exercise_rows ! j) ''notes'')
                                   = (Inl e, db5))))))"
  shows "fst (call_create_full_program uid db program_name program_description client_id_in days)
           = Raised e
       \<and> training_programs
            (snd (call_create_full_program uid db program_name program_description client_id_in days))
           = training_programs db
       \<and> training_days
            (snd (call_create_full_program uid db program_name program_description client_id_in days))
           = training_days db
       \<and> program_exercises
            (snd (call_create_full_program uid db program_name program_description client_id_in days))
           = program_exercises db
       \<and> tables
            (snd (call_create_full_program uid db program_name program_description client_id_in days))
           = tables db"
proof -
  have "\<exists>db'. create_full_program uid db program_name program_description client_id_in days
                 = (Inl e, db')"
    using assms
  proof (elim disjE conjE)
    assume "insert_training_program uid db program_name program_description uid client_id_in
              = (Inl e, db1)"
    then show ?thesis
      by (simp add: create_full_program_def)
  next
    assume "insert_training_program uid db program_name program_description uid client_id_in
              = (Inr new_program_id, db1)"
      and "jsonb_array_elements (map_option to_jsonb days) = Inl e"
    then show ?thesis
      by (simp add: create_full_program_def)
  next
    assume p: "insert_training_program uid db program_name program_description uid client_id_in
              = (Inr new_program_id, db1)"
      and a: "jsonb_array_elements (map_option to_jsonb days) = Inr day_rows"
      and i: "i < length day_rows"
      and before: "days_loop uid new_program_id (take i day_rows) db1 = (Inr (), db2)"
      and c: "cast_int (jsonb_field_text (day_rows ! i) ''day_order'') = Inl e"
    from c have
      "days_loop uid new_program_id (day_rows ! i # drop (Suc i) day_rows) db2 = (Inl e, db2)"
      by simp
    then have "days_loop uid new_program_id day_rows db1 = (Inl e, db2)"
      by (simp only: days_loop_at [OF i before])
    with p a show ?thesis
      by (simp add: create_full_program_def)
  next
    assume p: "insert_training_program uid db program_name program_description uid client_id_in
              = (Inr new_program_id, db1)"
      and a: "jsonb_array_elements (map_option to_jsonb days) = Inr day_rows"
      and i: "i < length day_rows"
      and before: "days_loop uid new_program_id (take i day_rows) db1 = (Inr (), db2)"
      and c: "cast_int (jsonb_field_text (day_rows ! i) ''day_order'') = Inr day_order_v"
      and d: "insert_training_day uid db2 (Some new_program_id)
             (jsonb_field_text (day_rows ! i) ''name'') day_order_v = (Inl e, db3)"
    from c d have
      "days_loop uid new_program_id (day_rows ! i # drop (Suc i) day_rows) db2 = (Inl e, db3)"
      by simp
    then have "days_loop uid new_program_id day_rows db1 = (Inl e, db3)"
      by (simp only: days_loop_at [OF i before])
    with p a show ?thesis
      by (simp add: create_full_program_def)
  next
    assume p: "insert_training_program uid db program_name program_description uid client_id_in
              = (Inr new_program_id, db1)"
      and a: "jsonb_array_elements (map_option to_jsonb days) = Inr day_rows"
      and i: "i < length day_rows"
      and before: "days_loop uid new_program_id (take i day_rows) db1 = (Inr (), db2)"
      and c: "cast_int (jsonb_field_text (day_rows ! i) ''day_order'') = Inr day_order_v"
      and d: "insert_training_day uid db2 (Some new_program_id)
             (jsonb_field_text (day_rows ! i) ''name'') day_order_v = (Inr new_day_id, db3)"
      and x: "jsonb_array_elements (jsonb_field (day_rows ! i) ''exercises'') = Inl e"
    from c d x have
      "days_loop uid new_program_id (day_rows ! i # drop (Suc i) day_rows) db2 = (Inl e, db3)"
      by simp
    then have "days_loop uid new_program_id day_rows db1 = (Inl e, db3)"
      by (simp only: days_loop_at [OF i before])
    with p a show ?thesis
      by (simp add: create_full_program_def)
  next
    assume p: "insert_training_program uid db program_name program_description uid client_id_in
              = (Inr new_program_id, db1)"
      and a: "jsonb_array_elements (map_option to_jsonb days) = Inr day_rows"
      and i: "i < length day_rows"
      and before: "days_loop uid new_program_id (take i day_rows) db1 = (Inr (), db2)"
      and c: "cast_int (jsonb_field_text (day_rows ! i) ''day_order'') = Inr day_order_v"
      and d: "insert_training_day uid db2 (Some new_program_id)
             (jsonb_field_text (day_rows ! i) ''name'') day_order_v = (Inr new_day_id, db3)"
      and x: "jsonb_array_elements (jsonb_field (day_rows ! i) ''exercises'') = Inr exercise_rows"
      and j: "j < length exercise_rows"
      and before': "exercises_loop uid new_day_id (take j exercise_rows) db3 = (Inr (), db4)"
      and casts: "find isl
             [cast_bigint (jsonb_field_text (exercise_rows ! j) ''exercise_id''),
              cast_int (jsonb_field_text (exercise_rows ! j) ''sets''),
              cast_int (jsonb_field_text (exercise_rows ! j) ''rest_period_seconds''),
              cast_int (jsonb_field_text (exercise_rows ! j) ''exercise_order'')] = Some (Inl e)"
    have "exercises_loop uid new_day_id (exercise_rows ! j # drop (Suc j) exercise_rows) db4
            = (Inl e, db4)"
      using first_cast_error [OF casts] by (elim disjE conjE exE) simp_all
    then have "exercises_loop uid new_day_id exercise_rows db3 = (Inl e, db4)"
      by (simp only: exercises_loop_at [OF j before'])
    with c d x have
      "days_loop uid new_program_id (day_rows ! i # drop (Suc i) day_rows) db2 = (Inl e, db4)"
      by simp
    then have "days_loop uid new_program_id day_rows db1 = (Inl e, db4)"
      by (simp only: days_loop_at [OF i before])
    with p a show ?thesis
      by (simp add: create_full_program_def)
  next
    assume p: "insert_training_program uid db program_name program_description uid client_id_in
              = (Inr new_program_id, db1)"
      and a: "jsonb_array_elements (map_option to_jsonb days) = Inr day_rows"
      and i: "i < length day_rows"
      and before: "days_loop uid new_program_id (take i day_rows) db1 = (Inr (), db2)"
      and c: "cast_int (jsonb_field_text (day_rows ! i) ''day_order'') = Inr day_order_v"
      and d: "insert_training_day uid db2 (Some new_program_id)
             (jsonb_field_text (day_rows ! i) ''name'') day_order_v = (Inr new_day_id, db3)"
      and x: "jsonb_array_elements (jsonb_field (day_rows ! i) ''exercises'') = Inr exercise_rows"
      and j: "j < length exercise_rows"
      and before': "exercises_loop uid new_day_id (take j exercise_rows) db3 = (Inr (), db4)"
      and c1: "cast_bigint (jsonb_field_text (exercise_rows ! j) ''exercise_id'') = Inr exercise_id_v"
      and c2: "cast_int (jsonb_field_text (exercise_rows ! j) ''sets'') = Inr sets_v"
      and c3: "cast_int (jsonb_field_text (exercise_rows ! j) ''rest_period_seconds'') = Inr rest_v"
      and c4: "cast_int (jsonb_field_text (exercise_rows ! j) ''exercise_order'') = Inr order_v"
      and ins: "insert_program_exercise uid db4 (Some new_day_id) exercise_id_v
             sets_v (jsonb_field_text (exercise_rows ! j) ''reps'') rest_v
             order_v (jsonb_field_text (exercise_rows ! j) ''notes'') = (Inl e, db5)"
    from c1 c2 c3 c4 ins have
      "exercises_loop uid new_day_id (exercise_rows ! j # drop (Suc j) exercise_rows) db4
         = (Inl e, db5)"
      by simp
    then have "exercises_loop uid new_day_id exercise_rows db3 = (Inl e, db5)"
      by (simp only: exercises_loop_at [OF j before'])
    with c d x have
      "days_loop uid new_program_id (day_rows ! i # drop (Suc i) day_rows) db2 = (Inl e, db5)"
      by simp
    then have "days_loop uid new_program_id day_rows db1 = (Inl e, db5)"
      by (simp only: days_loop_at [OF i before])
    with p a show ?thesis
      by (simp add: create_full_program_def)
  qed
  then obtain db' where
    "create_full_program uid db program_name program_description client_id_in days = (Inl e, db')"
    by blast
  then have "call_create_full_program uid db program_name program_description client_id_in days
               = (Raised e, rollback db db')"
    by (simp add: call_create_full_program_def statement_def)
  then show ?thesis
    by (simp add: rollback_def tables_def)
qed

text \<open>
  The witness, four failing calls on the example database. In the first the second
  assignment of the only day names an unknown exercise: when its insert fails the function
  has written one program row, one day row and one assignment row (each table holds two
  rows, one of them older). In the second the \<open>sets\<close> of the first assignment is the
  text \<open>three\<close>. In the third the second day has no name, after a first day with one
  assignment. In the fourth the client has no profile, and the program insert fails. Each
  time the function fails with the error of that step, the call raises it, and after the
  call every table is as it was.
\<close>

theorem create_full_program_rolls_back_witness:
  "fst (create_full_program (Some ''trainer-1'') example_db
       (Some ''Push Pull Legs'') None (Some ''client-1'') (Some (encode_days unknown_exercise)))
       = Inl foreign_key_violation
   \<and> length (training_programs (snd (create_full_program (Some ''trainer-1'') example_db
       (Some ''Push Pull Legs'') None (Some ''client-1'') (Some (encode_days unknown_exercise))))) = 2
   \<and> length (training_days (snd (create_full_program (Some ''trainer-1'') example_db
       (Some ''Push Pull Legs'') None (Some ''client-1'') (Some (encode_days unknown_exercise))))) = 2
   \<and> length (program_exercises (snd (create_full_program (Some ''trainer-1'') example_db
       (Some ''Push Pull Legs'') None (Some ''client-1'') (Some (encode_days unknown_exercise))))) = 2
   \<and> fst (call_create_full_program (Some ''trainer-1'') example_db
       (Some ''Push Pull Legs'') None (Some ''client-1'') (Some (encode_days unknown_exercise)))
       = Raised foreign_key_violation
   \<and> tables (snd (call_create_full_program (Some ''trainer-1'') example_db
       (Some ''Push Pull Legs'') None (Some ''client-1'') (Some (encode_days unknown_exercise))))
       = tables example_db
   \<and> fst (create_full_program (Some ''trainer-1'') example_db
       (Some ''Push Pull Legs'') None (Some ''client-1'') (Some malformed_sets))
       = Inl invalid_text_representation
   \<and> fst (call_create_full_program (Some ''trainer-1'') example_db
       (Some ''Push Pull Legs'') None (Some ''client-1'') (Some malformed_sets))
       = Raised invalid_text_representation
   \<and> tables (snd (call_create_full_program (Some ''trainer-1'') example_db
       (Some ''Push Pull Legs'') None (Some ''client-1'') (Some malformed_sets)))
       = tables example_db
   \<and> fst (create_full_program (Some ''trainer-1'') example_db
       (Some ''Push Pull Legs'') None (Some ''client-1'') (Some nameless_day))
       = Inl not_null_violation
   \<and> fst (call_create_full_program (Some ''trainer-1'') example_db
       (Some ''Push Pull Legs'') None (Some ''client-1'') (Some nameless_day))
       = Raised not_null_violation
   \<and> tables (snd (call_create_full_program (Some ''trainer-1'') example_db
       (Some ''Push Pull Legs'') None (Some ''client-1'') (Some nameless_day)))
       = tables example_db
   \<and> fst (create_full_program (Some ''trainer-1'') example_db
       (Some ''Push Pull Legs'') None (Some ''nobody'') (Some (encode_days push_pull_legs)))
       = Inl foreign_key_violation
   \<and> fst (call_create_full_program (Some ''trainer-1'') example_db
       (Some ''Push Pull Legs'') None (Some ''nobody'') (Some (encode_days push_pull_legs)))
       = Raised foreign_key_violation
   \<and> tables (snd (call_create_full_program (Some ''trainer-1'') example_db
       (Some ''Push Pull Legs'') None (Some ''nobody'') (Some (encode_days push_pull_legs))))
       = tables example_db"
proof -
  define db1 where "db1 = snd (insert_training_program (Some ''trainer-1'') example_db
    (Some ''Push Pull Legs'') None (Some ''trainer-1'') (Some ''client-1''))"
  have "fst (insert_training_program (Some ''trainer-1'') example_db
          (Some ''Push Pull Legs'') None (Some ''trainer-1'') (Some ''client-1'')) = Inr 2"
    by code_simp
  then have p: "insert_training_program (Some ''trainer-1'') example_db
          (Some ''Push Pull Legs'') None (Some ''trainer-1'') (Some ''client-1'') = (Inr 2, db1)"
    by (simp add: db1_def prod_eq_iff)
  have bad_exercise_id:
    "fst (call_create_full_program (Some ''trainer-1'') example_db
       (Some ''Push Pull Legs'') None (Some ''client-1'') (Some (encode_days unknown_exercise)))
       = Raised foreign_key_violation
     \<and> tables (snd (call_create_full_program (Some ''trainer-1'') example_db
       (Some ''Push Pull Legs'') None (Some ''client-1'') (Some (encode_days unknown_exercise))))
       = tables example_db"
  proof -
    define day_rows where "day_rows = map to_jsonb (map encode_day unknown_exercise)"
    define db3 where "db3 = snd (insert_training_day (Some ''trainer-1'') db1 (Some 2)
      (jsonb_field_text (day_rows ! 0) ''name'') (Some 1))"
    define exercise_rows where
      "exercise_rows = projr (jsonb_array_elements (jsonb_field (day_rows ! 0) ''exercises''))"
    define db4 where
      "db4 = snd (exercises_loop (Some ''trainer-1'') 2 (take 1 exercise_rows) db3)"
    define db5 where "db5 = snd (insert_program_exercise (Some ''trainer-1'') db4 (Some 2) (Some 8)
      (Some 4) (jsonb_field_text (exercise_rows ! 1) ''reps'') (Some 120) (Some 2)
      (jsonb_field_text (exercise_rows ! 1) ''notes''))"
    note defs = db5_def db4_def exercise_rows_def db3_def day_rows_def db1_def
    have a: "jsonb_array_elements (map_option to_jsonb (Some (encode_days unknown_exercise)))
               = Inr day_rows"
      by (simp add: jsonb_array_elements_def encode_days_def day_rows_def)
    have i: "0 < length day_rows"
      by (simp add: day_rows_def unknown_exercise_def)
    have before: "days_loop (Some ''trainer-1'') 2 (take 0 day_rows) db1 = (Inr (), db1)"
      by simp
    have c: "cast_int (jsonb_field_text (day_rows ! 0) ''day_order'') = Inr (Some 1)"
      unfolding defs by code_simp
    have "fst (insert_training_day (Some ''trainer-1'') db1 (Some 2)
            (jsonb_field_text (day_rows ! 0) ''name'') (Some 1)) = Inr 2"
      unfolding defs by code_simp
    then have d: "insert_training_day (Some ''trainer-1'') db1 (Some 2)
            (jsonb_field_text (day_rows ! 0) ''name'') (Some 1) = (Inr 2, db3)"
      by (simp add: db3_def prod_eq_iff)
    have "isl (jsonb_array_elements (jsonb_field (day_rows ! 0) ''exercises'')) = False"
      unfolding defs by code_simp
    then have x: "jsonb_array_elements (jsonb_field (day_rows ! 0) ''exercises'') = Inr exercise_rows"
      by (simp add: exercise_rows_def)
    have j: "1 < length exercise_rows"
      unfolding defs by code_simp
    have "fst (exercises_loop (Some ''trainer-1'') 2 (take 1 exercise_rows) db3) = Inr ()"
      unfolding defs by code_simp
    then have before':
      "exercises_loop (Some ''trainer-1'') 2 (take 1 exercise_rows) db3 = (Inr (), db4)"
      by (simp add: db4_def prod_eq_iff)
    have c1: "cast_bigint (jsonb_field_text (exercise_rows ! 1) ''exercise_id'') = Inr (Some 8)"
      unfolding defs by code_simp
    have c2: "cast_int (jsonb_field_text (exercise_rows ! 1) ''sets'') = Inr (Some 4)"
      unfolding defs by code_simp
    have c3: "cast_int (jsonb_field_text (exercise_rows ! 1) ''rest_period_seconds'') = Inr (Some 120)"
      unfolding defs by code_simp
    have c4: "cast_int (jsonb_field_text (exercise_rows ! 1) ''exercise_order'') = Inr (Some 2)"
      unfolding defs by code_simp
    have "fst (insert_program_exercise (Some ''trainer-1'') db4 (Some 2) (Some 8)
      (Some 4) (jsonb_field_text (exercise_rows ! 1) ''reps'') (Some 120) (Some 2)
      (jsonb_field_text (exercise_rows ! 1) ''notes'')) = Inl foreign_key_violation"
      unfolding defs by code_simp
    then have ins: "insert_program_exercise (Some ''trainer-1'') db4 (Some 2) (Some 8)
      (Some 4) (jsonb_field_text (exercise_rows ! 1) ''reps'') (Some 120) (Some 2)
      (jsonb_field_text (exercise_rows ! 1) ''notes'') = (Inl foreign_key_violation, db5)"
      by (simp add: db5_def prod_eq_iff)
    show ?thesis
      using create_full_program_rolls_back
         [where uid = "Some ''trainer-1''" and db = example_db
            and program_name = "Some ''Push Pull Legs''" and program_description = None
            and client_id_in = "Some ''client-1''"
            and days = "Some (encode_days unknown_exercise)"
            and e = foreign_key_violation and ?db1.0 = db1 and new_program_id = 2
            and day_rows = day_rows and i = 0 and ?db2.0 = db1 and day_order_v = "Some 1"
            and ?db3.0 = db3 and new_day_id = 2 and exercise_rows = exercise_rows and j = 1
            and ?db4.0 = db4 and exercise_id_v = "Some 8" and sets_v = "Some 4"
            and rest_v = "Some 120" and order_v = "Some 2" and ?db5.0 = db5]
        p a i before c d x j before' c1 c2 c3 c4 ins
      by simp
  qed
  have malformed_number:
    "fst (call_create_full_program (Some ''trainer-1'') example_db
       (Some ''Push Pull Legs'') None (Some ''client-1'') (Some malformed_sets))
       = Raised invalid_text_representation
     \<and> tables (snd (call_create_full_program (Some ''trainer-1'') example_db
       (Some ''Push Pull Legs'') None (Some ''client-1'') (Some malformed_sets)))
       = tables example_db"
  proof -
    define day_rows where
      "day_rows = projr (jsonb_array_elements (map_option to_jsonb (Some malformed_sets)))"
    define db3 where "db3 = snd (insert_training_day (Some ''trainer-1'') db1 (Some 2)
      (jsonb_field_text (day_rows ! 0) ''name'') (Some 1))"
    define exercise_rows where
      "exercise_rows = projr (jsonb_array_elements (jsonb_field (day_rows ! 0) ''exercises''))"
    note defs = exercise_rows_def db3_def day_rows_def db1_def
    have "isl (jsonb_array_elements (map_option to_jsonb (Some malformed_sets))) = False"
      by code_simp
    then have a: "jsonb_array_elements (map_option to_jsonb (Some malformed_sets)) = Inr day_rows"
      by (simp add: day_rows_def)
    have i: "0 < length day_rows"
      unfolding defs by code_simp
    have before: "days_loop (Some ''trainer-1'') 2 (take 0 day_rows) db1 = (Inr (), db1)"
      by simp
    have c: "cast_int (jsonb_field_text (day_rows ! 0) ''day_order'') = Inr (Some 1)"
      unfolding defs by code_simp
    have "fst (insert_training_day (Some ''trainer-1'') db1 (Some 2)
            (jsonb_field_text (day_rows ! 0) ''name'') (Some 1)) = Inr 2"
      unfolding defs by code_simp
    then have d: "insert_training_day (Some ''trainer-1'') db1 (Some 2)
            (jsonb_field_text (day_rows ! 0) ''name'') (Some 1) = (Inr 2, db3)"
      by (simp add: db3_def prod_eq_iff)
    have "isl (jsonb_array_elements (jsonb_field (day_rows ! 0) ''exercises'')) = False"
      unfolding defs by code_simp
    then have x: "jsonb_array_elements (jsonb_field (day_rows ! 0) ''exercises'') = Inr exercise_rows"
      by (simp add: exercise_rows_def)
    have j: "0 < length exercise_rows"
      unfolding defs by code_simp
    have before': "exercises_loop (Some ''trainer-1'') 2 (take 0 exercise_rows) db3 = (Inr (), db3)"
      by simp
    have casts: "find isl
        [cast_bigint (jsonb_field_text (exercise_rows ! 0) ''exercise_id''),
         cast_int (jsonb_field_text (exercise_rows ! 0) ''sets''),
         cast_int (jsonb_field_text (exercise_rows ! 0) ''rest_period_seconds''),
         cast_int (jsonb_field_text (exercise_rows ! 0) ''exercise_order'')]
        = Some (Inl invalid_text_representation)"
      unfolding defs by code_simp
    show ?thesis
      using create_full_program_rolls_back
         [where uid = "Some ''trainer-1''" and db = example_db
            and program_name = "Some ''Push Pull Legs''" and program_description = None
            and client_id_in = "Some ''client-1''" and days = "Some malformed_sets"
            and e = invalid_text_representation and ?db1.0 = db1 and new_program_id = 2
            and day_rows = day_rows and i = 0 and ?db2.0 = db1 and day_order_v = "Some 1"
            and ?db3.0 = db3 and new_day_id = 2 and exercise_rows = exercise_rows and j = 0
            and ?db4.0 = db3 and exercise_id_v = None and sets_v = None
            and rest_v = None and order_v = None and ?db5.0 = db3]
        p a i before c d x j before' casts
      by simp
  qed
  have day_without_name:
    "fst (call_create_full_program (Some ''trainer-1'') example_db
       (Some ''Push Pull Legs'') None (Some ''client-1'') (Some nameless_day))
       = Raised not_null_violation
     \<and> tables (snd (call_create_full_program (Some ''trainer-1'') example_db
       (Some ''Push Pull Legs'') None (Some ''client-1'') (Some nameless_day)))
       = tables example_db"
  proof -
    define day_rows where
      "day_rows = projr (jsonb_array_elements (map_option to_jsonb (Some nameless_day)))"
    define db2 where "db2 = snd (days_loop (Some ''trainer-1'') 2 (take 1 day_rows) db1)"
    define db3 where "db3 = snd (insert_training_day (Some ''trainer-1'') db2 (Some 2)
      (jsonb_field_text (day_rows ! 1) ''name'') (Some 2))"
    note defs = db3_def db2_def day_rows_def db1_def
    have "isl (jsonb_array_elements (map_option to_jsonb (Some nameless_day))) = False"
      by code_simp
    then have a: "jsonb_array_elements (map_option to_jsonb (Some nameless_day)) = Inr day_rows"
      by (simp add: day_rows_def)
    have i: "1 < length day_rows"
      unfolding defs by code_simp
    have "fst (days_loop (Some ''trainer-1'') 2 (take 1 day_rows) db1) = Inr ()"
      unfolding defs by code_simp
    then have before: "days_loop (Some ''trainer-1'') 2 (take 1 day_rows) db1 = (Inr (), db2)"
      by (simp add: db2_def prod_eq_iff)
    have c: "cast_int (jsonb_field_text (day_rows ! 1) ''day_order'') = Inr (Some 2)"
      unfolding defs by code_simp
    have "fst (insert_training_day (Some ''trainer-1'') db2 (Some 2)
            (jsonb_field_text (day_rows ! 1) ''name'') (Some 2)) = Inl not_null_violation"
      unfolding defs by code_simp
    then have d: "insert_training_day (Some ''trainer-1'') db2 (Some 2)
            (jsonb_field_text (day_rows ! 1) ''name'') (Some 2) = (Inl not_null_violation, db3)"
      by (simp add: db3_def prod_eq_iff)
    show ?thesis
      using create_full_program_rolls_back
         [where uid = "Some ''trainer-1''" and db = example_db
            and program_name = "Some ''Push Pull Legs''" and program_description = None
            and client_id_in = "Some ''client-1''" and days = "Some nameless_day"
            and e = not_null_violation and ?db1.0 = db1 and new_program_id = 2
            and day_rows = day_rows and i = 1 and ?db2.0 = db2 and day_order_v = "Some 2"
            and ?db3.0 = db3 and new_day_id = 0 and exercise_rows = "[]" and j = 0
            and ?db4.0 = db3 and exercise_id_v = None and sets_v = None
            and rest_v = None and order_v = None and ?db5.0 = db3]
        p a i before c d
      by simp
  qed
  have client_without_profile:
    "fst (call_create_full_program (Some ''trainer-1'') example_db
       (Some ''Push Pull Legs'') None (Some ''nobody'') (Some (encode_days push_pull_legs)))
       = Raised foreign_key_violation
     \<and> tables (snd (call_create_full_program (Some ''trainer-1'') example_db
       (Some ''Push Pull Legs'') None (Some ''nobody'') (Some (encode_days push_pull_legs))))
       = tables example_db"
  proof -
    define db0 where "db0 = snd (insert_training_program (Some ''trainer-1'') example_db
      (Some ''Push Pull Legs'') None (Some ''trainer-1'') (Some ''nobody''))"
    have "fst (insert_training_program (Some ''trainer-1'') example_db
            (Some ''Push Pull Legs'') None (Some ''trainer-1'') (Some ''nobody''))
            = Inl foreign_key_violation"
      by code_simp
    then have q: "insert_training_program (Some ''trainer-1'') example_db
            (Some ''Push Pull Legs'') None (Some ''trainer-1'') (Some ''nobody'')
            = (Inl foreign_key_violation, db0)"
      by (simp add: db0_def prod_eq_iff)
    show ?thesis
      using create_full_program_rolls_back
         [where uid = "Some ''trainer-1''" and db = example_db
            and program_name = "Some ''Push Pull Legs''" and program_description = None
            and client_id_in = "Some ''nobody''" and days = "Some (encode_days push_pull_legs)"
            and e = foreign_key_violation and ?db1.0 = db0 and new_program_id = 0
            and day_rows = "[]" and i = 0 and ?db2.0 = db0 and day_order_v = None
            and ?db3.0 = db0 and new_day_id = 0 and exercise_rows = "[]" and j = 0
            and ?db4.0 = db0 and exercise_id_v = None and sets_v = None
            and rest_v = None and order_v = None and ?db5.0 = db0]
        q
      by simp
  qed
  have fails:
    "fst (create_full_program (Some ''trainer-1'') example_db
       (Some ''Push Pull Legs'') None (Some ''client-1'') (Some (encode_days unknown_exercise)))
       = Inl foreign_key_violation"
    "fst (create_full_program (Some ''trainer-1'') example_db
       (Some ''Push Pull Legs'') None (Some ''client-1'') (Some malformed_sets))
       = Inl invalid_text_representation"
    "fst (create_full_program (Some ''trainer-1'') example_db
       (Some ''Push Pull Legs'') None (Some ''client-1'') (Some nameless_day))
       = Inl not_null_violation"
    "fst (create_full_program (Some ''trainer-1'') example_db
       (Some ''Push Pull Legs'') None (Some ''nobody'') (Some (encode_days push_pull_legs)))
       = Inl foreign_key_violation"
    by code_simp+
  have partial:
    "length (training_programs (snd (create_full_program (Some ''trainer-1'') example_db
       (Some ''Push Pull Legs'') None (Some ''client-1'') (Some (encode_days unknown_exercise))))) = 2"
    "length (training_days (snd (create_full_program (Some ''trainer-1'') example_db
       (Some ''Push Pull Legs'') None (Some ''client-1'') (Some (encode_days unknown_exercise))))) = 2"
    "length (program_exercises (snd (create_full_program (Some ''trainer-1'') example_db
       (Some ''Push Pull Legs'') None (Some ''client-1'') (Some (encode_days unknown_exercise))))) = 2"
    by code_simp+
  have restored:
    "tables (snd (call_create_full_program (Some ''trainer-1'') example_db
       (Some ''Push Pull Legs'') None (Some ''client-1'') (Some (encode_days unknown_exercise))))
       = tables example_db"
    "tables (snd (call_create_full_program (Some ''trainer-1'') example_db
       (Some ''Push Pull Legs'') None (Some ''client-1'') (Some malformed_sets)))
       = tables example_db"
    "tables (snd (call_create_full_program (Some ''trainer-1'') example_db
       (Some ''Push Pull Legs'') None (Some ''client-1'') (Some nameless_day)))
       = tables example_db"
    "tables (snd (call_create_full_program (Some ''trainer-1'') example_db
       (Some ''Push Pull Legs'') None (Some ''nobody'') (Some (encode_days push_pull_legs))))
       = tables example_db"
    by code_simp+
  from fails partial restored bad_exercise_id malformed_number day_without_name
    client_without_profile
  show ?thesis
    by simp
qed

subsection \<open>How \<open>create_full_program\<close> reports a failure\<close>

text \<open>
  Claim C4, as stated, fails: a failure of \<open>create_full_program\<close> reaches the caller as
  a raised error, not as a returned value. Here a \<open>sets\<close> field holds the text
  \<open>three\<close>.
\<close>

theorem create_full_program_raises_example:
  "fst (call_create_full_program (Some ''trainer-1'') example_db (Some ''Push Pull Legs'') None
          (Some ''client-1'') (Some malformed_sets))
     = Raised invalid_text_representation"
  by code_simp

text \<open>
  Claim C4, amended. A call of \<open>create_full_program\<close> has one of two outcomes. Either
  the function failed: then the caller gets the error raised, not a value, and every table
  has the rows it had before the call. Or the function returns, and what it returns is the
  object \<open>{status: 'success', message: 'Program created successfully', program_id}\<close>
  whose \<open>program_id\<close> is the id of the one row the call added to
  \<open>training_programs\<close>; it never returns an object with another status. The other
  mutating function, \<open>add_client_by_email\<close>, never raises: it returns an object whose
  status is \<open>success\<close>, or an object whose status is \<open>error\<close>, with a message that
  is not empty, and then the database is as it was.
\<close>

theorem create_full_program_returns_or_raises:
  "((\<exists>e db1. create_full_program uid db program_name program_description client_id_in days
                 = (Inl e, db1)
             \<and> call_create_full_program uid db program_name program_description client_id_in days
                 = (Raised e, rollback db db1)
             \<and> tables (rollback db db1) = tables db)
    \<or> (\<exists>db1. call_create_full_program uid db program_name program_description client_id_in days
                 = (Returned
                      (JObj [(''status'', JStr ''success''),
                             (''message'', JStr ''Program created successfully''),
                             (''program_id'', JNum (training_programs_id_seq db) 0)]),
                    db1)
             \<and> map tp_id (training_programs db1)
                 = map tp_id (training_programs db) @ [training_programs_id_seq db]))
   \<and> (\<exists>j db'. call_add_client_by_email uid db client_email = (Returned j, db')
         \<and> (jsonb_field j ''status'' = Some (JStr ''success'')
            \<or> jsonb_field j ''status'' = Some (JStr ''error'')
              \<and> (\<exists>m. jsonb_field j ''message'' = Some (JStr m) \<and> m \<noteq> [])
              \<and> db' = db))"
proof (rule conjI)
  show "(\<exists>e db1. create_full_program uid db program_name program_description client_id_in days
                 = (Inl e, db1)
             \<and> call_create_full_program uid db program_name program_description client_id_in days
                 = (Raised e, rollback db db1)
             \<and> tables (rollback db db1) = tables db)
    \<or> (\<exists>db1. call_create_full_program uid db program_name program_description client_id_in days
                 = (Returned
                      (JObj [(''status'', JStr ''success''),
                             (''message'', JStr ''Program created successfully''),
                             (''program_id'', JNum (training_programs_id_seq db) 0)]),
                    db1)
             \<and> map tp_id (training_programs db1)
                 = map tp_id (training_programs db) @ [training_programs_id_seq db])"
  proof (cases "create_full_program uid db program_name program_description client_id_in days")
    case (Pair r db1)
    show ?thesis
    proof (cases r)
      case (Inl e)
      with Pair show ?thesis
        by (simp add: call_create_full_program_def statement_def tables_rollback)
    next
      case (Inr v)
      from Pair Inr obtain new_program_id db0 day_rows where
        p: "insert_training_program uid db program_name program_description uid client_id_in
              = (Inr new_program_id, db0)"
        and l: "days_loop uid new_program_id day_rows db0 = (Inr (), db1)"
        and v: "v = program_created new_program_id"
        by (auto simp: create_full_program_def split: prod.splits sum.splits)
      from insert_training_program_Inr [OF p] have
        n: "new_program_id = training_programs_id_seq db"
        and t: "map tp_id (training_programs db0)
                  = map tp_id (training_programs db) @ [training_programs_id_seq db]"
        by auto
      have "training_programs db1 = training_programs db0"
        using days_loop_programs [of uid new_program_id day_rows db0] l by simp
      with Pair Inr v n t show ?thesis
        by (simp add: call_create_full_program_def statement_def program_created_def
              json_build_object_def)
    qed
  qed
next
  show "\<exists>j db'. call_add_client_by_email uid db client_email = (Returned j, db')
         \<and> (jsonb_field j ''status'' = Some (JStr ''success'')
            \<or> jsonb_field j ''status'' = Some (JStr ''error'')
              \<and> (\<exists>m. jsonb_field j ''message'' = Some (JStr m) \<and> m \<noteq> [])
              \<and> db' = db)"
    by (auto simp: call_add_client_by_email_def statement_def add_client_by_email_def
          add_client_by_email_block_def insert_client_def rollback_def error_result_def
          client_added_def json_build_object_def jsonb_field_def msg_not_found_def
          msg_not_client_def msg_already_def msg_unexpected_def
        split: option.splits)
qed

text \<open>
  The witness: a call without a caller identity raises \<open>insufficient_privilege\<close>; the
  trainer's call returns the success object with the id 2 of the new program row; adding a
  client by an unknown email returns an \<open>error\<close> object.
\<close>

theorem create_full_program_returns_or_raises_witness:
  "fst (call_create_full_program None example_db (Some ''Push Pull Legs'') None
          (Some ''client-1'') (Some (encode_days push_pull_legs)))
     = Raised insufficient_privilege
   \<and> fst (call_create_full_program (Some ''trainer-1'') example_db (Some ''Push Pull Legs'') None
          (Some ''client-1'') (Some (encode_days push_pull_legs)))
     = Returned (JObj [(''status'', JStr ''success''),
                       (''message'', JStr ''Program created successfully''),
                       (''program_id'', JNum 2 0)])
   \<and> map tp_id (training_programs (snd (call_create_full_program (Some ''trainer-1'') example_db
          (Some ''Push Pull Legs'') None (Some ''client-1'') (Some (encode_days push_pull_legs)))))
     = [1, 2]
   \<and> call_add_client_by_email (Some ''trainer-1'') example_db (Some ''nobody@example.org'')
     = (Returned (JObj [(''status'', JStr ''error''),
                        (''message'', JStr ''Nessun utente trovato con questa email.'')]),
        example_db)"
proof -
  let ?bad = "create_full_program None example_db (Some ''Push Pull Legs'') None
          (Some ''client-1'') (Some (encode_days push_pull_legs))"
  let ?good = "create_full_program (Some ''trainer-1'') example_db (Some ''Push Pull Legs'') None
          (Some ''client-1'') (Some (encode_days push_pull_legs))"
  have b: "fst ?bad = Inl insufficient_privilege"
    by code_simp
  have g: "isl (fst ?good) = False"
    by code_simp
  have s: "training_programs_id_seq example_db = 2"
      "map tp_id (training_programs example_db) = [1]"
    by (simp_all add: example_db_def)
  have returned: "fst ?good = Inr (JObj [(''status'', JStr ''success''),
                       (''message'', JStr ''Program created successfully''),
                       (''program_id'', JNum 2 0)])"
    by code_simp
  have 1: "fst (call_create_full_program None example_db (Some ''Push Pull Legs'') None
          (Some ''client-1'') (Some (encode_days push_pull_legs)))
     = Raised insufficient_privilege"
    using create_full_program_returns_or_raises
          [of None example_db "Some ''Push Pull Legs''" None "Some ''client-1''"
              "Some (encode_days push_pull_legs)" None] b
    by (cases ?bad) (auto simp: call_create_full_program_def statement_def)
  have 2: "fst (call_create_full_program (Some ''trainer-1'') example_db (Some ''Push Pull Legs'') None
          (Some ''client-1'') (Some (encode_days push_pull_legs)))
     = Returned (JObj [(''status'', JStr ''success''),
                       (''message'', JStr ''Program created successfully''),
                       (''program_id'', JNum 2 0)])
   \<and> map tp_id (training_programs (snd (call_create_full_program (Some ''trainer-1'') example_db
          (Some ''Push Pull Legs'') None (Some ''client-1'') (Some (encode_days push_pull_legs)))))
     = [1, 2]"
    using create_full_program_returns_or_raises
          [of "Some ''trainer-1''" example_db "Some ''Push Pull Legs''" None "Some ''client-1''"
              "Some (encode_days push_pull_legs)" None] g s returned
    by (cases ?good) auto
  have f: "find (\<lambda>p. Some ''nobody@example.org'' \<noteq> None \<and> p_email p = Some ''nobody@example.org'')
             (profiles example_db) = None"
    by (simp add: example_db_def)
  have 3: "call_add_client_by_email (Some ''trainer-1'') example_db (Some ''nobody@example.org'')
     = (Returned (JObj [(''status'', JStr ''error''),
                        (''message'', JStr ''Nessun utente trovato con questa email.'')]),
        example_db)"
    using f
    by (simp add: call_add_client_by_email_def statement_def add_client_by_email_def
          add_client_by_email_block_def error_result_def json_build_object_def msg_not_found_def)
  from 1 2 3 show ?thesis
    by simp
qed

subsection \<open>An empty list of days\<close>

text \<open>
  Claim C8. For a caller and a client that have profiles and a program name that is not
  NULL, a call with the empty array \<open>[]\<close> for \<open>days\<close> returns the object
  \<open>{status: 'success', message: 'Program created successfully', program_id}\<close>, adds
  exactly one row to \<open>training_programs\<close>, whose id is that \<open>program_id\<close>, and
  leaves \<open>training_days\<close> and \<open>program_exercises\<close> as they were. (The id drawn
  from the sequence is assumed not to be taken, as it is for an identity column nobody has
  overridden.)
\<close>

theorem create_full_program_empty_days:
  assumes "t \<in> set (map p_id (profiles db))"
    and "c \<in> set (map p_id (profiles db))"
    and "training_programs_id_seq db \<notin> set (map tp_id (training_programs db))"
    and "call_create_full_program (Some t) db (Some n) d (Some c) (Some (JArr [])) = (r, db')"
  shows "r = Returned (JObj [(''status'', JStr ''success''),
                             (''message'', JStr ''Program created successfully''),
                             (''program_id'', JNum (training_programs_id_seq db) 0)])
       \<and> training_programs db' = training_programs db
           @ [\<lparr>tp_id = training_programs_id_seq db, tp_name = n, tp_description = d,
               tp_trainer_id = t, tp_client_id = c\<rparr>]
       \<and> training_days db' = training_days db
       \<and> program_exercises db' = program_exercises db"
  using assms
  by (auto simp: call_create_full_program_def statement_def create_full_program_def
        insert_training_program_def Let_def jsonb_array_elements_def program_created_def
        json_build_object_def)

text \<open>The witness: the trainer of the example creates a program without days; its id is 2.\<close>

theorem create_full_program_empty_days_witness:
  "fst (call_create_full_program (Some ''trainer-1'') example_db (Some ''Rest week'') None
          (Some ''client-1'') (Some (JArr [])))
     = Returned (JObj [(''status'', JStr ''success''),
                       (''message'', JStr ''Program created successfully''),
                       (''program_id'', JNum 2 0)])
   \<and> training_programs (snd (call_create_full_program (Some ''trainer-1'') example_db
          (Some ''Rest week'') None (Some ''client-1'') (Some (JArr []))))
     = training_programs example_db
         @ [\<lparr>tp_id = 2, tp_name = ''Rest week'', tp_description = None,
             tp_trainer_id = ''trainer-1'', tp_client_id = ''client-1''\<rparr>]
   \<and> training_days (snd (call_create_full_program (Some ''trainer-1'') example_db
          (Some ''Rest week'') None (Some ''client-1'') (Some (JArr []))))
     = training_days example_db
   \<and> program_exercises (snd (call_create_full_program (Some ''trainer-1'') example_db
          (Some ''Rest week'') None (Some ''client-1'') (Some (JArr []))))
     = program_exercises example_db"
proof -
  have a: "''trainer-1'' \<in> set (map p_id (profiles example_db))"
    by (simp add: example_db_def)
  have b: "''client-1'' \<in> set (map p_id (profiles example_db))"
    by (simp add: example_db_def)
  have c: "training_programs_id_seq example_db \<notin> set (map tp_id (training_programs example_db))"
    by (simp add: example_db_def)
  have s: "training_programs_id_seq example_db = 2"
    by (simp add: example_db_def)
  have returned:
    "fst (call_create_full_program (Some ''trainer-1'') example_db (Some ''Rest week'') None
            (Some ''client-1'') (Some (JArr [])))
       = Returned (JObj [(''status'', JStr ''success''),
                         (''message'', JStr ''Program created successfully''),
                         (''program_id'', JNum 2 0)])"
    by code_simp
  have added:
    "map tp_id (training_programs (snd (call_create_full_program (Some ''trainer-1'') example_db
            (Some ''Rest week'') None (Some ''client-1'') (Some (JArr []))))) = [1, 2]"
    by code_simp
  from returned added show ?thesis
    using create_full_program_empty_days [OF a b c prod.collapse [symmetric], of "''Rest week''" None]
    by (simp add: s)
qed


subsection \<open>\<open>add_client_by_email\<close>\<close>

text \<open>The five objects the function can return are pairwise different.\<close>

lemma outcomes_distinct:
  "error_result msg_not_found \<noteq> error_result msg_not_client"
  "error_result msg_not_found \<noteq> error_result msg_already"
  "error_result msg_not_found \<noteq> error_result msg_unexpected"
  "error_result msg_not_client \<noteq> error_result msg_already"
  "error_result msg_not_client \<noteq> error_result msg_unexpected"
  "error_result msg_already \<noteq> error_result msg_unexpected"
  "error_result m \<noteq> client_added c"
  by (simp_all add: error_result_def client_added_def json_build_object_def msg_not_found_def
        msg_not_client_def msg_already_def msg_unexpected_def)

text \<open>
  Claim C3. For every caller, database and email argument (NULL included) the call
  returns a JSON object and never raises. The object carries a \<open>status\<close> and a
  \<open>message\<close>; the object and the database left are:
  \<^item> when no profile has the email: status \<open>error\<close>, message
    \<open>Nessun utente trovato con questa email.\<close>, nothing changed;
  \<^item> when the profile found is not a client: status \<open>error\<close>, message
    \<open>L'utente trovato non e un cliente.\<close> (with its accent), nothing changed;
  \<^item> when the caller is already linked to the profile found: in place of the uniqueness
    violation, status \<open>error\<close>, message \<open>Questo cliente e gia stato aggiunto.\<close>
    (with its accents), nothing changed;
  \<^item> when the insert fails otherwise (no caller identity, or a caller without a
    profile): status \<open>error\<close>, message \<open>Si e verificato un errore imprevisto.\<close>
    (with its accent), nothing changed;
  \<^item> otherwise status \<open>success\<close>, message \<open>Cliente aggiunto con successo!\<close>
    and \<open>client_id\<close> the id of the profile found, and the link from the caller to that
    profile is inserted.

  The four messages of the failures differ, so the five outcomes can be told apart. The
  accented letters are written as their two UTF-8 bytes.
\<close>

theorem add_client_by_email_outcomes:
  "\<exists>j db'. call_add_client_by_email uid db client_email = (Returned j, db') \<and>
     (case find (\<lambda>p. client_email \<noteq> None \<and> p_email p = client_email) (profiles db) of
        None \<Rightarrow>
          j = JObj [(''status'', JStr ''error''),
                    (''message'', JStr ''Nessun utente trovato con questa email.'')]
          \<and> db' = db
      | Some p \<Rightarrow>
          if p_role p \<noteq> ''client''
          then j = JObj [(''status'', JStr ''error''),
                         (''message'',
                          JStr (''L'' @ [CHR 0x27] @ ''utente trovato non '' @ [CHR 0xC3, CHR 0xA8]
                                @ '' un cliente.''))]
               \<and> db' = db
          else
            (case uid of
               None \<Rightarrow>
                 j = JObj [(''status'', JStr ''error''),
                           (''message'',
                            JStr (''Si '' @ [CHR 0xC3, CHR 0xA8]
                                  @ '' verificato un errore imprevisto.''))]
                 \<and> db' = db
             | Some t \<Rightarrow>
                 if \<lparr>c_trainer_id = t, c_client_id = p_id p\<rparr> \<in> set (clients db)
                 then j = JObj [(''status'', JStr ''error''),
                                (''message'',
                                 JStr (''Questo cliente '' @ [CHR 0xC3, CHR 0xA8] @ '' gi''
                                       @ [CHR 0xC3, CHR 0xA0] @ '' stato aggiunto.''))]
                      \<and> db' = db
                 else if t \<notin> set (map p_id (profiles db))
                 then j = JObj [(''status'', JStr ''error''),
                                (''message'',
                                 JStr (''Si '' @ [CHR 0xC3, CHR 0xA8]
                                       @ '' verificato un errore imprevisto.''))]
                      \<and> db' = db
                 else j = JObj [(''status'', JStr ''success''),
                                (''message'', JStr ''Cliente aggiunto con successo!''),
                                (''client_id'', JStr (p_id p))]
                      \<and> db' = db\<lparr>clients := clients db
                                   @ [\<lparr>c_trainer_id = t, c_client_id = p_id p\<rparr>]\<rparr>))"
  by (auto simp: call_add_client_by_email_def statement_def add_client_by_email_def
        add_client_by_email_block_def insert_client_def rollback_def error_result_def
        client_added_def json_build_object_def msg_not_found_def msg_not_client_def
        msg_already_def msg_unexpected_def msg_added_def
      split: option.splits dest: find_SomeD)

text \<open>
  The witness: the trainer adds the client twice. The first call inserts the link, the
  second returns the \<open>already added\<close> object and changes nothing.
\<close>

theorem add_client_by_email_outcomes_witness:
  "call_add_client_by_email (Some ''trainer-1'') example_db (Some ''ann@example.org'')
     = (Returned (JObj [(''status'', JStr ''success''),
                        (''message'', JStr ''Cliente aggiunto con successo!''),
                        (''client_id'', JStr ''client-1'')]),
        example_db\<lparr>clients := [\<lparr>c_trainer_id = ''trainer-1'', c_client_id = ''client-1''\<rparr>]\<rparr>)
   \<and> call_add_client_by_email (Some ''trainer-1'')
        (example_db\<lparr>clients := [\<lparr>c_trainer_id = ''trainer-1'', c_client_id = ''client-1''\<rparr>]\<rparr>)
        (Some ''ann@example.org'')
     = (Returned (JObj [(''status'', JStr ''error''),
                        (''message'',
                         JStr (''Questo cliente '' @ [CHR 0xC3, CHR 0xA8] @ '' gi''
                               @ [CHR 0xC3, CHR 0xA0] @ '' stato aggiunto.''))]),
        example_db\<lparr>clients := [\<lparr>c_trainer_id = ''trainer-1'', c_client_id = ''client-1''\<rparr>]\<rparr>)"
proof -
  have first:
    "fst (call_add_client_by_email (Some ''trainer-1'') example_db (Some ''ann@example.org''))
       = Returned (JObj [(''status'', JStr ''success''),
                         (''message'', JStr ''Cliente aggiunto con successo!''),
                         (''client_id'', JStr ''client-1'')])"
    "clients (snd (call_add_client_by_email (Some ''trainer-1'') example_db
        (Some ''ann@example.org'')))
       = [\<lparr>c_trainer_id = ''trainer-1'', c_client_id = ''client-1''\<rparr>]"
    by code_simp+
  have second:
    "fst (call_add_client_by_email (Some ''trainer-1'')
        (example_db\<lparr>clients := [\<lparr>c_trainer_id = ''trainer-1'', c_client_id = ''client-1''\<rparr>]\<rparr>)
        (Some ''ann@example.org''))
       = Returned (JObj [(''status'', JStr ''error''),
                         (''message'',
                          JStr (''Questo cliente '' @ [CHR 0xC3, CHR 0xA8] @ '' gi''
                                @ [CHR 0xC3, CHR 0xA0] @ '' stato aggiunto.''))])"
    by code_simp
  from first second show ?thesis
    using add_client_by_email_outcomes [of "Some ''trainer-1''" example_db "Some ''ann@example.org''"]
      add_client_by_email_outcomes
        [of "Some ''trainer-1''"
            "example_db\<lparr>clients := [\<lparr>c_trainer_id = ''trainer-1'', c_client_id = ''client-1''\<rparr>]\<rparr>"
            "Some ''ann@example.org''"]
    by (auto simp: example_db_def)
qed

text \<open>
  Claim C9. The function never looks at the caller's role: for a caller with any profile
  and an email whose profile is a client, the link from the caller to that client is in
  \<open>clients\<close> after the call, with the caller's id as \<open>trainer_id\<close>; unless it was
  there before, this call inserted it and returned success. Nothing requires the caller
  and the client to differ.
\<close>

theorem add_client_by_email_any_caller:
  assumes "t \<in> set (map p_id (profiles db))"
    and "find (\<lambda>p. p_email p = Some email) (profiles db) = Some target"
    and "p_role target = ''client''"
  shows "\<exists>j db'. call_add_client_by_email (Some t) db (Some email) = (Returned j, db')
           \<and> \<lparr>c_trainer_id = t, c_client_id = p_id target\<rparr> \<in> set (clients db')
           \<and> (\<lparr>c_trainer_id = t, c_client_id = p_id target\<rparr> \<notin> set (clients db) \<longrightarrow>
                j = client_added (p_id target)
                \<and> db' = db\<lparr>clients := clients db
                             @ [\<lparr>c_trainer_id = t, c_client_id = p_id target\<rparr>]\<rparr>)"
  using assms
  by (auto simp: call_add_client_by_email_def statement_def add_client_by_email_def
        add_client_by_email_block_def insert_client_def rollback_def
      split: option.splits dest: find_SomeD)

text \<open>
  The witness: a caller whose own role is \<open>client\<close> adds their own profile as their
  client.
\<close>

theorem add_client_by_email_any_caller_witness:
  "call_add_client_by_email (Some ''client-1'') example_db (Some ''ann@example.org'')
     = (Returned (client_added ''client-1''),
        example_db\<lparr>clients := [\<lparr>c_trainer_id = ''client-1'', c_client_id = ''client-1''\<rparr>]\<rparr>)"
proof -
  have a: "''client-1'' \<in> set (map p_id (profiles example_db))"
    by (simp add: example_db_def)
  have b: "find (\<lambda>p. p_email p = Some ''ann@example.org'') (profiles example_db)
             = Some \<lparr>p_id = ''client-1'', p_full_name = Some ''Ann'',
                     p_email = Some ''ann@example.org'', p_role = ''client''\<rparr>"
    by (simp add: example_db_def)
  have c: "clients example_db = []"
    by (simp add: example_db_def)
  show ?thesis
    using add_client_by_email_any_caller [OF a b] c by auto
qed

subsection \<open>The account-provisioning trigger\<close>

text \<open>
  Claim C10. For a new account (an id not yet in \<open>auth.users\<close>, in a database where
  every profile belongs to an account), the trigger function fails, and with it the account
  creation, exactly when the role of the registration metadata is absent or is neither
  \<open>trainer\<close> nor \<open>client\<close>, or the email is that of an existing profile. Otherwise
  the account and its profile are created, the profile's \<open>full_name\<close> being what the
  metadata holds: NULL when the metadata has no \<open>full_name\<close>.
\<close>

theorem handle_new_user_fails_iff:
  assumes "set (map p_id (profiles db)) \<subseteq> set (map au_id (auth_users db))"
    and "au_id new \<notin> set (map au_id (auth_users db))"
  shows "((\<exists>e db1. handle_new_user (db\<lparr>auth_users := auth_users db @ [new]\<rparr>) new = (Inl e, db1))
            \<longleftrightarrow> \<not> role_ok new \<or> email_taken db new)
       \<and> ((\<exists>e db'. create_account db new = (Raised e, db'))
            \<longleftrightarrow> \<not> role_ok new \<or> email_taken db new)
       \<and> (\<forall>r. meta_text (raw_user_meta_data new) ''role'' = Some r \<and> role_ok new
                \<and> \<not> email_taken db new \<longrightarrow>
              create_account db new =
                (Returned (),
                 db\<lparr>auth_users := auth_users db @ [new],
                    profiles := profiles db
                      @ [\<lparr>p_id = au_id new,
                          p_full_name = meta_text (raw_user_meta_data new) ''full_name'',
                          p_email = au_email new, p_role = r\<rparr>]\<rparr>))
       \<and> (\<forall>ms. raw_user_meta_data new = Some (JObj ms) \<and> map_of ms ''full_name'' = None \<longrightarrow>
              meta_text (raw_user_meta_data new) ''full_name'' = None)"
  using assms
  by (auto simp: create_account_def statement_def insert_auth_user_def handle_new_user_def
        insert_profile_def role_ok_def email_taken_def meta_text_def jsonb_field_text_def
        jsonb_field_def
      split: option.splits)

text \<open>
  The witness: a registration with role \<open>client\<close> and no \<open>full_name\<close> creates a
  profile whose \<open>full_name\<close> is NULL; one with role \<open>admin\<close> fails.
\<close>

theorem handle_new_user_fails_iff_witness:
  "create_account example_db new_client
     = (Returned (),
        example_db\<lparr>auth_users := auth_users example_db @ [new_client],
                   profiles := profiles example_db
                     @ [\<lparr>p_id = ''client-2'', p_full_name = None,
                         p_email = Some ''bob@example.org'', p_role = ''client''\<rparr>]\<rparr>)
   \<and> fst (create_account example_db new_admin) = Raised check_violation"
proof -
  have fk: "set (map p_id (profiles example_db)) \<subseteq> set (map au_id (auth_users example_db))"
    by (simp add: example_db_def)
  have fresh: "au_id new_client \<notin> set (map au_id (auth_users example_db))"
    by (simp add: example_db_def new_client_def)
  have role: "meta_text (raw_user_meta_data new_client) ''role'' = Some ''client''"
    by (simp add: new_client_def meta_text_def jsonb_field_text_def jsonb_field_def jsonb_text_def)
  have name: "meta_text (raw_user_meta_data new_client) ''full_name'' = None"
    by (simp add: new_client_def meta_text_def jsonb_field_text_def jsonb_field_def)
  have ok: "role_ok new_client"
    by (simp add: role_ok_def role)
  have free: "\<not> email_taken example_db new_client"
    by (simp add: email_taken_def example_db_def new_client_def)
  have "create_account example_db new_client
          = (Returned (),
             example_db\<lparr>auth_users := auth_users example_db @ [new_client],
                        profiles := profiles example_db
                          @ [\<lparr>p_id = ''client-2'', p_full_name = None,
                              p_email = Some ''bob@example.org'', p_role = ''client''\<rparr>]\<rparr>)"
    using handle_new_user_fails_iff [OF fk fresh] role ok free name
    by (simp add: new_client_def)
  moreover have "fst (create_account example_db new_admin) = Raised check_violation"
    by code_simp
  ultimately show ?thesis
    by simp
qed


subsection \<open>Numbers written out and read back\<close>

text \<open>
  A JSON integer reaches an \<open>INT\<close> or \<open>BIGINT\<close> column through its text (\<open>->>\<close>)
  and the integer input routine. The two are inverse on the range of the column type.
\<close>

lemma of_char_digit_char: "d < 10 \<Longrightarrow> (of_char (digit_char d) :: nat) = 48 + d"
  by (simp add: digit_char_def)

lemma is_digit_digit_char: "d < 10 \<Longrightarrow> is_digit (digit_char d)"
  by (simp add: is_digit_def of_char_digit_char)

lemma digits_not_Nil: "digits n \<noteq> []"
  by (subst digits.simps) simp

lemma digits_all_digit: "c \<in> set (digits n) \<Longrightarrow> is_digit c"
proof (induction n arbitrary: c rule: digits.induct)
  case (1 n)
  show ?case
  proof (cases "n < 10")
    case True
    with "1.prems" show ?thesis
      by (subst (asm) digits.simps) (simp add: is_digit_digit_char)
  next
    case False
    with "1.prems" have "c \<in> set (digits (n div 10)) \<or> c = digit_char (n mod 10)"
      by (subst (asm) digits.simps) auto
    with False "1.IH" show ?thesis
      by (auto simp: is_digit_digit_char)
  qed
qed

lemma digits_value_snoc: "digits_value (cs @ [c]) = 10 * digits_value cs + (of_char c - 48)"
  by (simp add: digits_value_def)

lemma digits_value_digits: "digits_value (digits n) = n"
proof (induction n rule: digits.induct)
  case (1 n)
  show ?case
  proof (cases "n < 10")
    case True
    then show ?thesis
      by (subst digits.simps) (simp add: digits_value_def of_char_digit_char)
  next
    case False
    then have "digits_value (digits n)
                 = 10 * digits_value (digits (n div 10)) + (of_char (digit_char (n mod 10)) - 48)"
      by (subst digits.simps) (simp add: digits_value_snoc)
    with False "1.IH" show ?thesis
      by (simp add: of_char_digit_char)
  qed
qed

lemma is_digit_not_space: "is_digit c \<Longrightarrow> \<not> pg_isspace c"
  by (auto simp: is_digit_def pg_isspace_def)

lemma is_digit_not_sign: "is_digit c \<Longrightarrow> c \<noteq> CHR ''-'' \<and> c \<noteq> CHR ''+''"
  by (auto simp: is_digit_def)

lemma takeWhile_digits: "takeWhile is_digit (digits n) = digits n"
  by (simp add: digits_all_digit)

lemma dropWhile_digits: "dropWhile is_digit (digits n) = []"
  by (simp add: digits_all_digit)

lemma pg_strtoint_digits:
  "pg_strtoint lo (digits n) =
     (if - lo < int n \<or> int n = - lo then Inl numeric_value_out_of_range else Inr (int n))"
proof -
  obtain c cs where d: "digits n = c # cs"
    using digits_not_Nil [of n] by (cases "digits n") auto
  have c: "is_digit c"
    using digits_all_digit [of c n] d by simp
  have s1: "dropWhile pg_isspace (digits n) = digits n"
    using c d by (simp add: is_digit_not_space)
  have neg: "(case digits n of c # _ \<Rightarrow> c = CHR ''-'' | [] \<Rightarrow> False) = False"
    using is_digit_not_sign [OF c] by (simp add: d)
  have s2: "(case digits n of c # r \<Rightarrow> if c = CHR ''-'' \<or> c = CHR ''+'' then r else digits n | [] \<Rightarrow> [])
              = digits n"
    using is_digit_not_sign [OF c] by (simp add: d)
  show ?thesis
    unfolding pg_strtoint_def s1 Let_def neg s2 takeWhile_digits dropWhile_digits digits_value_digits
    using digits_not_Nil [of n] by auto
qed

lemma pg_strtoint_minus_digits:
  "pg_strtoint lo (CHR ''-'' # digits n) =
     (if - lo < int n then Inl numeric_value_out_of_range else Inr (- int n))"
  unfolding pg_strtoint_def
  using digits_not_Nil [of n]
  by (simp add: pg_isspace_def Let_def takeWhile_digits dropWhile_digits digits_value_digits)

lemma numeric_out_int:
  "numeric_out n 0 = (if n < 0 then CHR ''-'' # digits (nat (- n)) else digits (nat n))"
  by (simp add: numeric_out_def Let_def abs_if)

lemma pg_strtoint_numeric_out:
  "lo \<le> 0 \<Longrightarrow> pg_strtoint lo (numeric_out n 0) =
     (if lo \<le> n \<and> n < - lo then Inr n else Inl numeric_value_out_of_range)"
  by (auto simp: numeric_out_int pg_strtoint_digits pg_strtoint_minus_digits)

subsection \<open>The rows \<open>create_full_program\<close> inserts\<close>

lemma to_jsonb_encode_int [simp]: "to_jsonb (encode_int v) = encode_int v"
  by (simp add: encode_int_def split: option.splits)

lemma to_jsonb_encode_text [simp]: "to_jsonb (encode_text v) = encode_text v"
  by (simp add: encode_text_def split: option.splits)

lemma to_jsonb_encode_exercise:
  "to_jsonb (encode_exercise x) =
     JObj [(''reps'', encode_text (xd_reps x)),
           (''sets'', encode_int (xd_sets x)),
           (''notes'', encode_text (xd_notes x)),
           (''exercise_id'', JNum (xd_exercise_id x) 0),
           (''exercise_order'', encode_int (xd_exercise_order x)),
           (''rest_period_seconds'', encode_int (xd_rest_period_seconds x))]"
  by (simp add: encode_exercise_def jsonb_members_def key_less_def)

lemma to_jsonb_encode_day:
  "to_jsonb (encode_day d) =
     JObj [(''name'', JStr (dd_name d)),
           (''day_order'', encode_int (dd_day_order d)),
           (''exercises'', JArr (map (\<lambda>x. to_jsonb (encode_exercise x)) (dd_exercises d)))]"
  by (simp add: encode_day_def jsonb_members_def key_less_def comp_def)

lemma cast_int_encode_int:
  "cast_int (jsonb_text (encode_int v)) =
     (case v of
        None \<Rightarrow> Inr None
      | Some n \<Rightarrow>
          if - (2 ^ 31) \<le> n \<and> n < 2 ^ 31 then Inr (Some n) else Inl numeric_value_out_of_range)"
  by (simp add: encode_int_def jsonb_text_def cast_int_def pg_strtoint_numeric_out
      split: option.splits)

lemma cast_int_encode_int_Inr: "cast_int (jsonb_text (encode_int v)) = Inr w \<Longrightarrow> w = v"
  by (auto simp: cast_int_encode_int split: option.splits if_splits)

lemma cast_bigint_JNum:
  "cast_bigint (jsonb_text (JNum n 0)) =
     (if - (2 ^ 63) \<le> n \<and> n < 2 ^ 63 then Inr (Some n) else Inl numeric_value_out_of_range)"
  by (simp add: jsonb_text_def cast_bigint_def pg_strtoint_numeric_out)

lemma cast_bigint_JNum_Inr: "cast_bigint (jsonb_text (JNum n 0)) = Inr w \<Longrightarrow> w = Some n"
  by (auto simp: cast_bigint_JNum split: if_splits)

lemma jsonb_text_encode_text [simp]: "jsonb_text (encode_text v) = v"
  by (simp add: encode_text_def jsonb_text_def split: option.splits)

lemma exercise_fields:
  "jsonb_field_text (to_jsonb (encode_exercise x)) ''exercise_id'' = jsonb_text (JNum (xd_exercise_id x) 0)"
  "jsonb_field_text (to_jsonb (encode_exercise x)) ''sets'' = jsonb_text (encode_int (xd_sets x))"
  "jsonb_field_text (to_jsonb (encode_exercise x)) ''reps'' = xd_reps x"
  "jsonb_field_text (to_jsonb (encode_exercise x)) ''rest_period_seconds''
     = jsonb_text (encode_int (xd_rest_period_seconds x))"
  "jsonb_field_text (to_jsonb (encode_exercise x)) ''exercise_order''
     = jsonb_text (encode_int (xd_exercise_order x))"
  "jsonb_field_text (to_jsonb (encode_exercise x)) ''notes'' = xd_notes x"
  by (simp_all add: to_jsonb_encode_exercise jsonb_field_text_def jsonb_field_def)

lemma day_fields:
  "jsonb_field_text (to_jsonb (encode_day d)) ''name'' = Some (dd_name d)"
  "jsonb_field_text (to_jsonb (encode_day d)) ''day_order'' = jsonb_text (encode_int (dd_day_order d))"
  "jsonb_array_elements (jsonb_field (to_jsonb (encode_day d)) ''exercises'')
     = Inr (map (\<lambda>x. to_jsonb (encode_exercise x)) (dd_exercises d))"
  by (simp_all add: to_jsonb_encode_day jsonb_field_text_def jsonb_field_def jsonb_text_def
        jsonb_array_elements_def)

lemma insert_program_exercise_Inr:
  assumes "insert_program_exercise uid db (Some d) x_in s r rp ord n = (Inr i, db1)"
  shows "\<exists>x. x_in = Some x \<and> i = program_exercises_id_seq db
           \<and> db1 = db\<lparr>program_exercises_id_seq := program_exercises_id_seq db + 1,
                      program_exercises := program_exercises db
                        @ [\<lparr>pe_id = program_exercises_id_seq db, pe_day_id = d, pe_exercise_id = x,
                            pe_sets = s, pe_reps = r, pe_rest_period_seconds = rp, pe_notes = n,
                            pe_exercise_order = ord\<rparr>]\<rparr>"
  using assms
  by (auto simp: insert_program_exercise_def Let_def split: option.splits if_splits)

lemma insert_training_day_Inr:
  assumes "insert_training_day uid db (Some p) n_in ord = (Inr i, db1)"
  shows "\<exists>n. n_in = Some n \<and> i = training_days_id_seq db
           \<and> db1 = db\<lparr>training_days_id_seq := training_days_id_seq db + 1,
                      training_days := training_days db
                        @ [\<lparr>td_id = training_days_id_seq db, td_program_id = p, td_name = n,
                            td_day_order = ord\<rparr>]\<rparr>"
  using assms
  by (auto simp: insert_training_day_def Let_def split: option.splits if_splits)

lemma exercises_loop_step:
  assumes "exercises_loop uid day_id (to_jsonb (encode_exercise x) # vs) db = (Inr u, db')"
  shows "\<exists>i db1.
           insert_program_exercise uid db (Some day_id) (Some (xd_exercise_id x)) (xd_sets x)
             (xd_reps x) (xd_rest_period_seconds x) (xd_exercise_order x) (xd_notes x) = (Inr i, db1)
           \<and> exercises_loop uid day_id vs db1 = (Inr u, db')"
  using assms
  by (auto simp: exercise_fields split: sum.splits prod.splits
      dest!: cast_int_encode_int_Inr cast_bigint_JNum_Inr)

lemma exercises_loop_rows:
  "exercises_loop uid day_id (map (\<lambda>x. to_jsonb (encode_exercise x)) xs) db = (Inr u, db') \<Longrightarrow>
     db' = db\<lparr>program_exercises_id_seq := program_exercises_id_seq db + int (length xs),
               program_exercises := program_exercises db
                 @ expected_exercises day_id (program_exercises_id_seq db) xs\<rparr>"
proof (induction xs arbitrary: db)
  case Nil
  then show ?case by simp
next
  case (Cons x xs)
  have "exercises_loop uid day_id
          (to_jsonb (encode_exercise x) # map (\<lambda>x. to_jsonb (encode_exercise x)) xs) db = (Inr u, db')"
    using Cons.prems by (simp del: exercises_loop.simps)
  from exercises_loop_step [OF this] obtain i db1 where
    ins: "insert_program_exercise uid db (Some day_id) (Some (xd_exercise_id x)) (xd_sets x)
            (xd_reps x) (xd_rest_period_seconds x) (xd_exercise_order x) (xd_notes x) = (Inr i, db1)"
    and rest: "exercises_loop uid day_id (map (\<lambda>x. to_jsonb (encode_exercise x)) xs) db1 = (Inr u, db')"
    by blast
  from insert_program_exercise_Inr [OF ins] have
    db1: "db1 = db\<lparr>program_exercises_id_seq := program_exercises_id_seq db + 1,
                   program_exercises := program_exercises db
                     @ [\<lparr>pe_id = program_exercises_id_seq db, pe_day_id = day_id,
                         pe_exercise_id = xd_exercise_id x, pe_sets = xd_sets x, pe_reps = xd_reps x,
                         pe_rest_period_seconds = xd_rest_period_seconds x, pe_notes = xd_notes x,
                         pe_exercise_order = xd_exercise_order x\<rparr>]\<rparr>"
    by auto
  from Cons.IH [OF rest] show ?case
    by (simp add: db1 add.assoc)
qed

lemma days_loop_step:
  assumes "days_loop uid program_id (to_jsonb (encode_day d) # vs) db = (Inr u, db')"
  shows "\<exists>i db1 db2.
           insert_training_day uid db (Some program_id) (Some (dd_name d)) (dd_day_order d) = (Inr i, db1)
           \<and> exercises_loop uid i (map (\<lambda>x. to_jsonb (encode_exercise x)) (dd_exercises d)) db1 = (Inr (), db2)
           \<and> days_loop uid program_id vs db2 = (Inr u, db')"
  using assms
  by (auto simp: day_fields split: sum.splits prod.splits dest!: cast_int_encode_int_Inr)

lemma days_loop_rows:
  "days_loop uid program_id (map (\<lambda>d. to_jsonb (encode_day d)) ds) db = (Inr u, db') \<Longrightarrow>
     db' = db\<lparr>training_days_id_seq := training_days_id_seq db + int (length ds),
               program_exercises_id_seq := program_exercises_id_seq db
                 + int (sum_list (map (length \<circ> dd_exercises) ds)),
               training_days := training_days db
                 @ expected_days program_id (training_days_id_seq db) ds,
               program_exercises := program_exercises db
                 @ expected_assignments (training_days_id_seq db) (program_exercises_id_seq db) ds\<rparr>"
proof (induction ds arbitrary: db)
  case Nil
  then show ?case by simp
next
  case (Cons d ds)
  have "days_loop uid program_id (to_jsonb (encode_day d) # map (\<lambda>d. to_jsonb (encode_day d)) ds) db
          = (Inr u, db')"
    using Cons.prems by (simp del: days_loop.simps)
  from days_loop_step [OF this] obtain i db1 db2 where
    ins: "insert_training_day uid db (Some program_id) (Some (dd_name d)) (dd_day_order d) = (Inr i, db1)"
    and inner: "exercises_loop uid i (map (\<lambda>x. to_jsonb (encode_exercise x)) (dd_exercises d)) db1 = (Inr (), db2)"
    and rest: "days_loop uid program_id (map (\<lambda>d. to_jsonb (encode_day d)) ds) db2 = (Inr u, db')"
    by blast
  from insert_training_day_Inr [OF ins] have
    i: "i = training_days_id_seq db"
    and db1: "db1 = db\<lparr>training_days_id_seq := training_days_id_seq db + 1,
                       training_days := training_days db
                         @ [\<lparr>td_id = training_days_id_seq db, td_program_id = program_id,
                             td_name = dd_name d, td_day_order = dd_day_order d\<rparr>]\<rparr>"
    by auto
  from exercises_loop_rows [OF inner] have
    db2: "db2 = db1\<lparr>program_exercises_id_seq := program_exercises_id_seq db1
                       + int (length (dd_exercises d)),
                     program_exercises := program_exercises db1
                       @ expected_exercises i (program_exercises_id_seq db1) (dd_exercises d)\<rparr>" .
  from Cons.IH [OF rest] show ?case
    by (simp add: db2 db1 i add.assoc)
qed

lemma length_expected_exercises: "length (expected_exercises day_id next_id xs) = length xs"
  by (induction xs arbitrary: next_id) auto

lemma length_expected_days: "length (expected_days program_id next_id ds) = length ds"
  by (induction ds arbitrary: next_id) auto

lemma length_expected_assignments:
  "length (expected_assignments next_day_id next_id ds) = sum_list (map (length \<circ> dd_exercises) ds)"
  by (induction ds arbitrary: next_day_id next_id) (auto simp: length_expected_exercises)

lemma expected_days_program:
  "t \<in> set (expected_days program_id next_id ds) \<Longrightarrow> td_program_id t = program_id"
  by (induction ds arbitrary: next_id) auto

lemma filter_expected_days:
  "filter (\<lambda>t. td_program_id t = program_id) (expected_days program_id next_id ds)
     = expected_days program_id next_id ds"
  by (simp add: expected_days_program)

lemma create_full_program_Inr:
  assumes "create_full_program uid db program_name program_description client_id_in
             (Some (encode_days ds)) = (Inr r, db')"
  shows "r = program_created (training_programs_id_seq db)
       \<and> training_programs_id_seq db \<notin> set (map tp_id (training_programs db))
       \<and> training_days db' = training_days db
           @ expected_days (training_programs_id_seq db) (training_days_id_seq db) ds
       \<and> program_exercises db' = program_exercises db
           @ expected_assignments (training_days_id_seq db) (program_exercises_id_seq db) ds"
proof -
  from assms obtain i db1 where
    ins: "insert_training_program uid db program_name program_description uid client_id_in = (Inr i, db1)"
    and loop: "days_loop uid i (map (\<lambda>d. to_jsonb (encode_day d)) ds) db1 = (Inr (), db')"
    and r: "r = program_created i"
    by (auto simp: create_full_program_def jsonb_array_elements_def encode_days_def comp_def
        split: prod.splits sum.splits)
  from insert_training_program_Inr [OF ins] obtain n t c where
    i: "i = training_programs_id_seq db"
    and fresh: "i \<notin> set (map tp_id (training_programs db))"
    and db1: "db1 = db\<lparr>training_programs_id_seq := training_programs_id_seq db + 1,
                       training_programs := training_programs db
                         @ [\<lparr>tp_id = training_programs_id_seq db, tp_name = n,
                             tp_description = program_description, tp_trainer_id = t,
                             tp_client_id = c\<rparr>]\<rparr>"
    by blast
  from days_loop_rows [OF loop] show ?thesis
    using r i fresh by (simp add: db1)
qed

text \<open>
  The expected rows, read by position: day row \<open>i\<close> has the name and order of day
  descriptor \<open>i\<close>; the assignment rows that reference it are those of the exercise
  descriptors of day \<open>i\<close>, in their order, and assignment row \<open>j\<close> of a day has the
  fields of exercise descriptor \<open>j\<close>.
\<close>

lemma expected_days_nth:
  "i < length ds \<Longrightarrow>
     expected_days program_id next_id ds ! i
       = \<lparr>td_id = next_id + int i, td_program_id = program_id, td_name = dd_name (ds ! i),
          td_day_order = dd_day_order (ds ! i)\<rparr>"
proof (induction ds arbitrary: next_id i)
  case Nil
  then show ?case by simp
next
  case (Cons d ds)
  then show ?case
    by (cases i) (auto simp: add.assoc)
qed

lemma expected_exercises_nth:
  "j < length xs \<Longrightarrow>
     expected_exercises day_id next_id xs ! j
       = \<lparr>pe_id = next_id + int j, pe_day_id = day_id, pe_exercise_id = xd_exercise_id (xs ! j),
          pe_sets = xd_sets (xs ! j), pe_reps = xd_reps (xs ! j),
          pe_rest_period_seconds = xd_rest_period_seconds (xs ! j), pe_notes = xd_notes (xs ! j),
          pe_exercise_order = xd_exercise_order (xs ! j)\<rparr>"
proof (induction xs arbitrary: next_id j)
  case Nil
  then show ?case by simp
next
  case (Cons x xs)
  then show ?case
    by (cases j) (auto simp: add.assoc)
qed

lemma expected_exercises_day:
  "r \<in> set (expected_exercises day_id next_id xs) \<Longrightarrow> pe_day_id r = day_id"
  by (induction xs arbitrary: next_id) auto

lemma expected_assignments_day_from:
  "r \<in> set (expected_assignments next_day_id next_id ds) \<Longrightarrow> next_day_id \<le> pe_day_id r"
proof (induction ds arbitrary: next_day_id next_id)
  case Nil
  then show ?case by simp
next
  case (Cons d ds)
  then show ?case
    by (fastforce dest: expected_exercises_day)
qed

lemma expected_assignments_of_day:
  "i < length ds \<Longrightarrow>
     filter (\<lambda>r. pe_day_id r = next_day_id + int i) (expected_assignments next_day_id next_id ds)
       = expected_exercises (next_day_id + int i)
           (next_id + int (sum_list (map (length \<circ> dd_exercises) (take i ds))))
           (dd_exercises (ds ! i))"
proof (induction ds arbitrary: next_day_id next_id i)
  case Nil
  then show ?case by simp
next
  case (Cons d ds)
  show ?case
  proof (cases i)
    case 0
    have "filter (\<lambda>r. pe_day_id r = next_day_id)
            (expected_assignments (next_day_id + 1) (next_id + int (length (dd_exercises d))) ds) = []"
      by (auto simp: filter_empty_conv dest: expected_assignments_day_from)
    moreover have "filter (\<lambda>r. pe_day_id r = next_day_id)
            (expected_exercises next_day_id next_id (dd_exercises d))
          = expected_exercises next_day_id next_id (dd_exercises d)"
      by (simp add: expected_exercises_day)
    ultimately show ?thesis
      using 0 by simp
  next
    case (Suc k)
    with Cons.prems have k: "k < length ds"
      by simp
    have "filter (\<lambda>r. pe_day_id r = next_day_id + int (Suc k))
            (expected_exercises next_day_id next_id (dd_exercises d)) = []"
      by (auto simp: filter_empty_conv dest: expected_exercises_day)
    moreover have "next_day_id + int (Suc k) = (next_day_id + 1) + int k"
      by simp
    ultimately show ?thesis
      using Cons.IH [OF k, of "next_day_id + 1" "next_id + int (length (dd_exercises d))"] Suc
      by (simp add: add.assoc)
  qed
qed

text \<open>
  Claim C2. Let the \<open>days\<close> argument be the JSON of a typed document \<open>ds\<close> with N day
  descriptors, day i carrying M_i exercise descriptors, and let the call succeed. Then
  the call returns the success object with the id of the new program, and
  \<^item> \<open>training_days\<close> has gained exactly the rows \<open>expected_days\<close>: N rows, one per day
    descriptor in input order, each referencing the new program and carrying the name and
    \<open>day_order\<close> of its descriptor; they are all the day rows that reference the new
    program (in a database whose day rows reference existing programs);
  \<^item> \<open>program_exercises\<close> has gained exactly the rows \<open>expected_assignments\<close>: the sum
    of the M_i rows, those of day i referencing the row inserted for day i, each with the
    \<open>exercise_order\<close> (and the other fields) of its descriptor, in input order.
\<close>

theorem create_full_program_rows:
  assumes call: "call_create_full_program uid db program_name program_description client_id_in
                   (Some (encode_days ds)) = (Returned r, db')"
    and fk: "\<forall>t \<in> set (training_days db). td_program_id t \<in> set (map tp_id (training_programs db))"
  shows "r = program_created (training_programs_id_seq db)
       \<and> training_days db' = training_days db
           @ expected_days (training_programs_id_seq db) (training_days_id_seq db) ds
       \<and> filter (\<lambda>t. td_program_id t = training_programs_id_seq db) (training_days db')
           = expected_days (training_programs_id_seq db) (training_days_id_seq db) ds
       \<and> length (expected_days (training_programs_id_seq db) (training_days_id_seq db) ds) = length ds
       \<and> program_exercises db' = program_exercises db
           @ expected_assignments (training_days_id_seq db) (program_exercises_id_seq db) ds
       \<and> length (expected_assignments (training_days_id_seq db) (program_exercises_id_seq db) ds)
           = sum_list (map (length \<circ> dd_exercises) ds)"
proof -
  from call have body: "create_full_program uid db program_name program_description client_id_in
                 (Some (encode_days ds)) = (Inr r, db')"
    by (auto simp: call_create_full_program_def statement_def split: prod.splits sum.splits)
  note rows = create_full_program_Inr [OF body]
  from rows have "training_programs_id_seq db \<notin> set (map tp_id (training_programs db))"
    by blast
  with fk have "\<forall>t \<in> set (training_days db). td_program_id t \<noteq> training_programs_id_seq db"
    by metis
  then have old: "filter (\<lambda>t. td_program_id t = training_programs_id_seq db) (training_days db) = []"
    by (simp add: filter_empty_conv)
  show ?thesis
    using rows old
    by (simp add: filter_expected_days length_expected_days length_expected_assignments)
qed

text \<open>
  The witness: the two-day program of the specification. Two day rows (ids 2 and 3) and
  two assignment rows (ids 2 and 3, under days 2 and 3) are added to the rows already
  there.
\<close>

theorem create_full_program_rows_witness:
  "fst (call_create_full_program (Some ''trainer-1'') example_db (Some ''Push Pull Legs'') None
          (Some ''client-1'') (Some (encode_days push_pull_legs)))
     = Returned (program_created 2)
   \<and> training_days (snd (call_create_full_program (Some ''trainer-1'') example_db
          (Some ''Push Pull Legs'') None (Some ''client-1'') (Some (encode_days push_pull_legs))))
     = [\<lparr>td_id = 1, td_program_id = 1, td_name = ''Only day'', td_day_order = Some 1\<rparr>,
        \<lparr>td_id = 2, td_program_id = 2, td_name = ''Day 1'', td_day_order = Some 1\<rparr>,
        \<lparr>td_id = 3, td_program_id = 2, td_name = ''Day 2'', td_day_order = Some 2\<rparr>]
   \<and> program_exercises (snd (call_create_full_program (Some ''trainer-1'') example_db
          (Some ''Push Pull Legs'') None (Some ''client-1'') (Some (encode_days push_pull_legs))))
     = [\<lparr>pe_id = 1, pe_day_id = 1, pe_exercise_id = 7, pe_sets = Some 2, pe_reps = Some ''10'',
          pe_rest_period_seconds = None, pe_notes = None, pe_exercise_order = Some 1\<rparr>,
        \<lparr>pe_id = 2, pe_day_id = 2, pe_exercise_id = 7, pe_sets = Some 3, pe_reps = Some ''8-12'',
          pe_rest_period_seconds = Some 90, pe_notes = None, pe_exercise_order = Some 1\<rparr>,
        \<lparr>pe_id = 3, pe_day_id = 3, pe_exercise_id = 9, pe_sets = Some 4, pe_reps = Some ''5'',
          pe_rest_period_seconds = Some 120, pe_notes = Some ''slow'', pe_exercise_order = Some 1\<rparr>]"
proof -
  let ?c = "call_create_full_program (Some ''trainer-1'') example_db (Some ''Push Pull Legs'') None
              (Some ''client-1'') (Some (encode_days push_pull_legs))"
  have first: "fst ?c = Returned (program_created 2)"
    by code_simp
  then have call: "?c = (Returned (program_created 2), snd ?c)"
    by (metis prod.collapse)
  have fk: "\<forall>t \<in> set (training_days example_db).
              td_program_id t \<in> set (map tp_id (training_programs example_db))"
    by (simp add: example_db_def)
  note rows = create_full_program_rows [OF call fk]
  have d: "training_days example_db
             @ expected_days (training_programs_id_seq example_db) (training_days_id_seq example_db)
                 push_pull_legs
           = [\<lparr>td_id = 1, td_program_id = 1, td_name = ''Only day'', td_day_order = Some 1\<rparr>,
              \<lparr>td_id = 2, td_program_id = 2, td_name = ''Day 1'', td_day_order = Some 1\<rparr>,
              \<lparr>td_id = 3, td_program_id = 2, td_name = ''Day 2'', td_day_order = Some 2\<rparr>]"
    by (simp add: example_db_def push_pull_legs_def)
  have x: "program_exercises example_db
             @ expected_assignments (training_days_id_seq example_db)
                 (program_exercises_id_seq example_db) push_pull_legs
           = [\<lparr>pe_id = 1, pe_day_id = 1, pe_exercise_id = 7, pe_sets = Some 2, pe_reps = Some ''10'',
                pe_rest_period_seconds = None, pe_notes = None, pe_exercise_order = Some 1\<rparr>,
              \<lparr>pe_id = 2, pe_day_id = 2, pe_exercise_id = 7, pe_sets = Some 3, pe_reps = Some ''8-12'',
                pe_rest_period_seconds = Some 90, pe_notes = None, pe_exercise_order = Some 1\<rparr>,
              \<lparr>pe_id = 3, pe_day_id = 3, pe_exercise_id = 9, pe_sets = Some 4, pe_reps = Some ''5'',
                pe_rest_period_seconds = Some 120, pe_notes = Some ''slow'',
                pe_exercise_order = Some 1\<rparr>]"
    by (simp add: example_db_def push_pull_legs_def)
  from rows have "training_days (snd ?c)
                    = training_days example_db
                        @ expected_days (training_programs_id_seq example_db)
                            (training_days_id_seq example_db) push_pull_legs"
    by blast
  then have days: "training_days (snd ?c)
           = [\<lparr>td_id = 1, td_program_id = 1, td_name = ''Only day'', td_day_order = Some 1\<rparr>,
              \<lparr>td_id = 2, td_program_id = 2, td_name = ''Day 1'', td_day_order = Some 1\<rparr>,
              \<lparr>td_id = 3, td_program_id = 2, td_name = ''Day 2'', td_day_order = Some 2\<rparr>]"
    using d by (rule trans)
  from rows have "program_exercises (snd ?c)
                    = program_exercises example_db
                        @ expected_assignments (training_days_id_seq example_db)
                            (program_exercises_id_seq example_db) push_pull_legs"
    by blast
  then have assignments: "program_exercises (snd ?c)
           = [\<lparr>pe_id = 1, pe_day_id = 1, pe_exercise_id = 7, pe_sets = Some 2, pe_reps = Some ''10'',
                pe_rest_period_seconds = None, pe_notes = None, pe_exercise_order = Some 1\<rparr>,
              \<lparr>pe_id = 2, pe_day_id = 2, pe_exercise_id = 7, pe_sets = Some 3, pe_reps = Some ''8-12'',
                pe_rest_period_seconds = Some 90, pe_notes = None, pe_exercise_order = Some 1\<rparr>,
              \<lparr>pe_id = 3, pe_day_id = 3, pe_exercise_id = 9, pe_sets = Some 4, pe_reps = Some ''5'',
                pe_rest_period_seconds = Some 120, pe_notes = Some ''slow'',
                pe_exercise_order = Some 1\<rparr>]"
    using x by (rule trans)
  from first days assignments show ?thesis
    by (intro conjI)
qed


section \<open>Properties of the food-scan function\<close>

subsection \<open>Taking the fences out\<close>

lemma fence_simps: "js ''```json'' = [96, 96, 96, 106, 115, 111, 110]" "js ''```'' = [96, 96, 96]"
  by (simp_all add: js_def)

lemma remove_all_Nil [simp]: "remove_all pat [] = []"
  by (subst remove_all.simps) simp

lemma remove_all_Cons:
  "pat \<noteq> [] \<Longrightarrow> remove_all pat (c # cs) =
     (if prefix pat (c # cs) then remove_all pat (drop (length pat) (c # cs))
      else c # remove_all pat cs)"
  by (subst remove_all.simps) simp

lemma remove_all_no_match: "pat \<noteq> [] \<Longrightarrow> \<not> occurs pat s \<Longrightarrow> remove_all pat s = s"
  by (induction s) (auto simp: remove_all_Cons)

lemma not_space_backtick: "\<not> js_space 96" "\<not> js_space 106"
  by (simp_all add: js_space_def)

lemma spaces_no_fence: "list_all js_space s \<Longrightarrow> \<not> occurs [96, 96, 96] s"
  by (induction s) (auto simp: not_space_backtick)

lemma remove_fence_spaces: "list_all js_space s \<Longrightarrow> remove_all [96, 96, 96] s = s"
  by (simp add: remove_all_no_match spaces_no_fence)

lemma remove_all_skip_spaces:
  "list_all js_space before \<Longrightarrow> remove_all (96 # p) (before @ s) = before @ remove_all (96 # p) s"
  by (induction before) (auto simp: remove_all_Cons not_space_backtick)

lemma no_json_fence_tail:
  "\<not> occurs [96, 96, 96] inner \<Longrightarrow> list_all js_space after \<Longrightarrow>
     \<not> occurs [96, 96, 96, 106, 115, 111, 110] (inner @ 96 # 96 # 96 # after)"
proof (induction inner)
  case Nil
  have "\<not> occurs [96, 96, 96, 106, 115, 111, 110] after"
    using Nil(2) by (induction after) (auto simp: not_space_backtick)
  then show ?case
    using Nil(2) by (cases after) (auto simp: not_space_backtick)
next
  case (Cons c cs)
  then have ih: "\<not> occurs [96, 96, 96, 106, 115, 111, 110] (cs @ 96 # 96 # 96 # after)"
    by simp
  have "\<not> prefix [96, 96, 96, 106, 115, 111, 110] (c # cs @ 96 # 96 # 96 # after)"
  proof (cases cs)
    case Nil
    then show ?thesis by simp
  next
    case (Cons d ds)
    note cs = this
    show ?thesis
    proof (cases ds)
      case Nil
      then show ?thesis by (simp add: cs)
    next
      case (Cons e es)
      with cs Cons.prems(1) show ?thesis by auto
    qed
  qed
  with ih show ?case by simp
qed

lemma one_tick_spaces:
  "list_all js_space after \<Longrightarrow> remove_all [96, 96, 96] (96 # after) = 96 # after"
  by (rule remove_all_no_match, simp, cases after)
     (auto simp: spaces_no_fence not_space_backtick)

lemma two_ticks_spaces:
  "list_all js_space after \<Longrightarrow> remove_all [96, 96, 96] (96 # 96 # after) = 96 # 96 # after"
  by (rule remove_all_no_match, simp, cases after)
     (auto simp: spaces_no_fence not_space_backtick)

lemma remove_closing_fence:
  "\<not> occurs [96, 96, 96] inner \<Longrightarrow> list_all js_space after \<Longrightarrow>
     remove_all [96, 96, 96] (inner @ 96 # 96 # 96 # after) = inner @ after"
proof (induction inner)
  case Nil
  then show ?case
    by (simp add: remove_all_Cons remove_fence_spaces)
next
  case (Cons c cs)
  then have ih: "remove_all [96, 96, 96] (cs @ 96 # 96 # 96 # after) = cs @ after"
    by simp
  show ?case
  proof (cases "prefix [96, 96, 96] (c # cs @ 96 # 96 # 96 # after)")
    case False
    then have "remove_all [96, 96, 96] (c # cs @ 96 # 96 # 96 # after)
                 = c # remove_all [96, 96, 96] (cs @ 96 # 96 # 96 # after)"
      by (subst remove_all_Cons) auto
    then show ?thesis
      using ih by simp
  next
    case True
    note match = this
    show ?thesis
    proof (cases cs)
      case Nil
      with match have c: "c = 96" by simp
      have "remove_all [96, 96, 96] (96 # 96 # 96 # 96 # after) = remove_all [96, 96, 96] (96 # after)"
        by (subst remove_all_Cons) simp_all
      then show ?thesis
        using Cons.prems(2) by (simp add: Nil c one_tick_spaces)
    next
      case (Cons d ds)
      note cs = this
      show ?thesis
      proof (cases ds)
        case Nil
        with match cs have c: "c = 96" "d = 96" by simp_all
        have "remove_all [96, 96, 96] (96 # 96 # 96 # 96 # 96 # after)
                = remove_all [96, 96, 96] (96 # 96 # after)"
          by (subst remove_all_Cons) simp_all
        then show ?thesis
          using Cons.prems(2) by (simp add: Nil cs c two_ticks_spaces)
      next
        case (Cons e es)
        with cs match Cons.prems(1) show ?thesis by auto
      qed
    qed
  qed
qed

lemma dropWhile_spaces_append:
  "list_all js_space ws \<Longrightarrow> dropWhile js_space (ws @ s) = dropWhile js_space s"
  by (induction ws) auto

lemma js_trim_spaces:
  assumes "list_all js_space before" "list_all js_space after"
  shows "js_trim (before @ s @ after) = js_trim s"
proof -
  have a: "dropWhile js_space (before @ s @ after) = dropWhile js_space (s @ after)"
    using assms(1) by (rule dropWhile_spaces_append)
  have ra: "list_all js_space (rev after)"
    using assms(2) by (simp add: list_all_iff)
  show ?thesis
  proof (cases "list_all js_space s")
    case True
    then have "list_all js_space (s @ after)"
      using assms(2) by simp
    then have "dropWhile js_space (s @ after) = []"
      by (simp add: list_all_iff)
    moreover have "dropWhile js_space s = []"
      using True by (simp add: list_all_iff)
    ultimately show ?thesis
      by (simp only: js_trim_def a)
  next
    case False
    then have "dropWhile js_space (s @ after) = dropWhile js_space s @ after"
      by (auto simp: list_all_iff dropWhile_append1)
    then have "js_trim (before @ s @ after)
                 = rev (dropWhile js_space (rev after @ rev (dropWhile js_space s)))"
      by (simp only: js_trim_def a rev_append)
    also have "\<dots> = rev (dropWhile js_space (rev (dropWhile js_space s)))"
      by (simp only: dropWhile_spaces_append [OF ra])
    finally show ?thesis
      by (simp only: js_trim_def)
  qed
qed

lemma jsonString_fenced:
  assumes t: "t = before @ js ''```json'' @ inner @ js ''```'' @ after"
    and sp: "list_all js_space before" "list_all js_space after"
    and inner: "\<not> occurs (js ''```'') inner"
  shows "jsonString t = js_trim inner"
proof -
  have t': "t = before @ 96 # 96 # 96 # 106 # 115 # 111 # 110 # inner @ 96 # 96 # 96 # after"
    using t by (simp add: fence_simps)
  have no: "\<not> occurs [96, 96, 96] inner"
    using inner by (simp add: fence_simps)
  have "remove_all [96, 96, 96, 106, 115, 111, 110] t
          = before @ remove_all [96, 96, 96, 106, 115, 111, 110]
                       (96 # 96 # 96 # 106 # 115 # 111 # 110 # inner @ 96 # 96 # 96 # after)"
    unfolding t' using sp(1) by (rule remove_all_skip_spaces)
  also have "\<dots> = before @ remove_all [96, 96, 96, 106, 115, 111, 110] (inner @ 96 # 96 # 96 # after)"
    by (subst remove_all_Cons) simp_all
  also have "\<dots> = before @ inner @ 96 # 96 # 96 # after"
    using no_json_fence_tail [OF no sp(2)] by (simp add: remove_all_no_match)
  finally have one:
    "remove_all [96, 96, 96, 106, 115, 111, 110] t = before @ inner @ 96 # 96 # 96 # after" .
  have "remove_all [96, 96, 96] (before @ inner @ 96 # 96 # 96 # after)
          = before @ remove_all [96, 96, 96] (inner @ 96 # 96 # 96 # after)"
    using sp(1) by (rule remove_all_skip_spaces)
  also have "\<dots> = before @ inner @ after"
    by (simp only: remove_closing_fence [OF no sp(2)])
  finally have two:
    "remove_all [96, 96, 96] (before @ inner @ 96 # 96 # 96 # after) = before @ inner @ after" .
  have "jsonString t = js_trim (remove_all [96, 96, 96] (remove_all [96, 96, 96, 106, 115, 111, 110] t))"
    by (simp only: jsonString_def fence_simps)
  also have "\<dots> = js_trim (before @ inner @ after)"
    by (simp only: one two)
  also have "\<dots> = js_trim inner"
    using sp by (rule js_trim_spaces)
  finally show ?thesis .
qed

subsection \<open>The handler on the example requests\<close>

lemma example_request_parsed:
  "JSON_parse (example_env t table) (req_body example_request)
     = Inr (Obj [(js ''image'', Str (js ''QUJD''))])"
  by (simp add: example_env_def table_parse_def example_request_def)

lemma example_upstream_parsed:
  "JSON_parse (example_env t table) (upstream_body t) = Inr (upstream_data t)"
  by (simp add: example_env_def table_parse_def upstream_body_def js_def)

lemma example_fetch:
  "fetch (example_env t table) r
     = Inr \<lparr>res_ok = True, res_statusText = js ''OK'', res_text = upstream_body t\<rparr>"
  by (simp add: example_env_def)

lemma reply_text_upstream_data: "reply_text (upstream_data t) = Inr t"
  by (simp add: reply_text_def upstream_data_def and_then_def js_def)

lemma js_Nil_iff [simp]: "js s = [] \<longleftrightarrow> s = []"
  by (simp add: js_def)

lemma example_request_image:
  "js_member (Obj [(js ''image'', Str (js ''QUJD''))]) (js ''image'') = Inr (Str (js ''QUJD''))"
  "truthy (Str (js ''QUJD''))"
  "req_method example_request \<noteq> js ''OPTIONS''"
  by (simp_all add: js_def example_request_def)

lemma example_try_block:
  "try_block (example_env t table) k example_request
     = (JSON_parse (example_env t table) (jsonString t), [gemini_request k (Str (js ''QUJD''))])"
  by (simp add: try_block_def example_request_parsed example_request_image example_fetch
        example_upstream_parsed reply_text_upstream_data and_then_def)

lemma example_handler:
  "JSON_parse (example_env t table) (jsonString t) = Inr v \<Longrightarrow>
     rsp_status (fst (handler (example_env t table) k example_request)) = 200
     \<and> rsp_body (fst (handler (example_env t table) k example_request)) = Json v"
  by (simp add: handler_def example_try_block example_request_image)

lemma example_parse_other:
  "s \<noteq> js ''{\"image\":\"QUJD\"}'' \<Longrightarrow> s \<noteq> js ''{\"image\":\"\"}'' \<Longrightarrow> s \<noteq> js ''{}''
     \<Longrightarrow> s \<noteq> upstream_body t
     \<Longrightarrow> JSON_parse (example_env t table) s = table_parse table s"
  by (simp add: example_env_def table_parse_def)

lemma jsonString_reply_meal: "jsonString reply_meal = meal_text"
  by (simp add: jsonString_def js_trim_def js_space_def js_def reply_meal_def meal_text_def
        remove_all.simps)

lemma parse_meal_text:
  "JSON_parse (example_env reply_meal [(meal_text, meal)]) meal_text = Inr meal"
  by (subst example_parse_other)
     (simp_all add: table_parse_def meal_text_def upstream_body_def js_def)

lemma jsonString_reply_unknown: \<open>jsonString reply_unknown = js ''{"calories_kcal":"unknown"}''\<close>
  by (simp add: jsonString_def js_trim_def js_space_def js_def reply_unknown_def remove_all.simps)

lemma parse_unknown:
  \<open>JSON_parse (example_env reply_unknown table_unknown) (js ''{"calories_kcal":"unknown"}'')
     = Inr (Obj [(js ''calories_kcal'', Str (js ''unknown''))])\<close>
  by (subst example_parse_other)
     (simp_all add: table_parse_def table_unknown_def upstream_body_def js_def)

lemma jsonString_reply_note: \<open>jsonString reply_note = js ''{"note":""}''\<close>
  by (simp add: jsonString_def js_trim_def js_space_def js_def reply_note_def remove_all.simps)

lemma parse_note_empty:
  \<open>JSON_parse (example_env reply_note table_note) (js ''{"note":""}'')
     = Inr (Obj [(js ''note'', Str [])])\<close>
  by (subst example_parse_other)
     (simp_all add: table_parse_def table_note_def upstream_body_def js_def)

lemma parse_note_fence:
  \<open>JSON_parse (example_env reply_note table_note) (js ''{"note":"```"}'')
     = Inr (Obj [(js ''note'', Str (js ''```''))])\<close>
  by (subst example_parse_other)
     (simp_all add: table_parse_def table_note_def upstream_body_def js_def)

lemma parse_empty_object: "JSON_parse (example_env t table) (js ''{}'') = Inr (Obj [])"
  by (simp add: example_env_def table_parse_def js_def)

lemma parse_empty_image:
  \<open>JSON_parse (example_env t table) (js ''{"image":""}'') = Inr (Obj [(js ''image'', Str [])])\<close>
  by (simp add: example_env_def table_parse_def js_def)

subsection \<open>A request without an image\<close>

text \<open>
  The handler answers the CORS preflight, an \<open>OPTIONS\<close> request, before it reads
  anything else of the request. Any other request reaches the upstream service only with
  a body that parses and an \<open>image\<close> that counts as true.
\<close>

lemma preflight_answer:
  "req_method req = js ''OPTIONS'' \<Longrightarrow>
     handler env GEMINI_API_KEY req
       = (\<lparr>rsp_status = 200,
           rsp_headers = corsHeaders @ [(js ''content-type'', js ''text/plain;charset=UTF-8'')],
           rsp_body = Text (js ''ok'')\<rparr>, [])"
  by (simp add: handler_def)

lemma upstream_call_needs_image:
  assumes "snd (handler env GEMINI_API_KEY req) \<noteq> []"
  shows "\<exists>parsed image_data.
           req_method req \<noteq> js ''OPTIONS''
         \<and> JSON_parse env (req_body req) = Inr parsed
         \<and> js_member parsed (js ''image'') = Inr image_data
         \<and> truthy image_data
         \<and> snd (handler env GEMINI_API_KEY req) = [gemini_request GEMINI_API_KEY image_data]"
  using assms
  by (auto simp: handler_def try_block_def split: sum.splits if_splits prod.splits)

text \<open>
  Claim C7. The endpoint takes a \<open>POST\<close> with the body \<open>{ image }\<close>. For every
  request that is not the preflight (every method but \<open>OPTIONS\<close>, so every
  \<open>POST\<close>) and whose body is JSON with \<open>image\<close> missing, \<open>null\<close> or the empty
  string, the handler answers with status 400 and the body
  \<open>{ error: 'No image data provided.' }\<close>, and sends no request upstream.
\<close>

theorem food_scan_missing_image:
  assumes "req_method req \<noteq> js ''OPTIONS''"
    and "image_missing env req"
  shows "rsp_status (fst (handler env GEMINI_API_KEY req)) = 400
       \<and> rsp_body (fst (handler env GEMINI_API_KEY req))
           = Json_error (Error (js ''No image data provided.''))
       \<and> snd (handler env GEMINI_API_KEY req) = []"
  using assms
  by (auto simp: handler_def try_block_def image_missing_def split: sum.splits)

text \<open>
  The witness: a \<open>POST\<close> with the body \<open>{}\<close>, one with \<open>{"image":""}\<close>
  and one with \<open>{"image":null}\<close>.
\<close>

theorem food_scan_missing_image_witness:
  \<open>rsp_status (fst (handler (example_env reply_meal [(meal_text, meal)]) (js ''secret'')
          \<lparr>req_method = js ''POST'', req_body = js ''{}''\<rparr>)) = 400
   \<and> rsp_body (fst (handler (example_env reply_meal [(meal_text, meal)]) (js ''secret'')
          \<lparr>req_method = js ''POST'', req_body = js ''{}''\<rparr>))
       = Json_error (Error (js ''No image data provided.''))
   \<and> snd (handler (example_env reply_meal [(meal_text, meal)]) (js ''secret'')
          \<lparr>req_method = js ''POST'', req_body = js ''{}''\<rparr>) = []
   \<and> rsp_status (fst (handler (example_env reply_meal [(meal_text, meal)]) (js ''secret'')
          \<lparr>req_method = js ''POST'', req_body = js ''{"image":""}''\<rparr>)) = 400
   \<and> rsp_body (fst (handler (example_env reply_meal [(meal_text, meal)]) (js ''secret'')
          \<lparr>req_method = js ''POST'', req_body = js ''{"image":""}''\<rparr>))
       = Json_error (Error (js ''No image data provided.''))
   \<and> snd (handler (example_env reply_meal [(meal_text, meal)]) (js ''secret'')
          \<lparr>req_method = js ''POST'', req_body = js ''{"image":""}''\<rparr>) = []
   \<and> handler (example_env reply_meal null_image) (js ''secret'')
          \<lparr>req_method = js ''POST'', req_body = js ''{"image":null}''\<rparr>
       = (\<lparr>rsp_status = 400,
           rsp_headers = corsHeaders @ [(js ''Content-Type'', js ''application/json'')],
           rsp_body = Json_error (Error (js ''No image data provided.''))\<rparr>, [])\<close>
proof -
  have a: \<open>image_missing (example_env reply_meal [(meal_text, meal)])
             \<lparr>req_method = js ''POST'', req_body = js ''{}''\<rparr>\<close>
    by (simp add: image_missing_def parse_empty_object)
  have b: \<open>image_missing (example_env reply_meal [(meal_text, meal)])
             \<lparr>req_method = js ''POST'', req_body = js ''{"image":""}''\<rparr>\<close>
    by (simp add: image_missing_def parse_empty_image)
  have post: "js ''POST'' \<noteq> js ''OPTIONS''"
    by (simp add: js_def)
  then have m: "req_method \<lparr>req_method = js ''POST'', req_body = body\<rparr> \<noteq> js ''OPTIONS''"
    for body
    by simp
  have without_image:
    \<open>handler (example_env reply_meal [(meal_text, meal)]) (js ''secret'')
        \<lparr>req_method = js ''POST'', req_body = js ''{}''\<rparr>
      = (\<lparr>rsp_status = 400,
          rsp_headers = corsHeaders @ [(js ''Content-Type'', js ''application/json'')],
          rsp_body = Json_error (Error (js ''No image data provided.''))\<rparr>, [])\<close>
    by (simp add: handler_def try_block_def parse_empty_object post)
  have empty_image:
    \<open>handler (example_env reply_meal [(meal_text, meal)]) (js ''secret'')
        \<lparr>req_method = js ''POST'', req_body = js ''{"image":""}''\<rparr>
      = (\<lparr>rsp_status = 400,
          rsp_headers = corsHeaders @ [(js ''Content-Type'', js ''application/json'')],
          rsp_body = Json_error (Error (js ''No image data provided.''))\<rparr>, [])\<close>
    by (simp add: handler_def try_block_def parse_empty_image post)
  have parsed:
    \<open>JSON_parse (example_env reply_meal null_image) (js ''{"image":null}'')
       = Inr (Obj [(js ''image'', Null)])\<close>
    by (subst example_parse_other)
       (simp_all add: table_parse_def null_image_def upstream_body_def js_def)
  then have c: \<open>image_missing (example_env reply_meal null_image)
             \<lparr>req_method = js ''POST'', req_body = js ''{"image":null}''\<rparr>\<close>
    by (simp add: image_missing_def)
  have null_image:
    \<open>handler (example_env reply_meal null_image) (js ''secret'')
        \<lparr>req_method = js ''POST'', req_body = js ''{"image":null}''\<rparr>
      = (\<lparr>rsp_status = 400,
          rsp_headers = corsHeaders @ [(js ''Content-Type'', js ''application/json'')],
          rsp_body = Json_error (Error (js ''No image data provided.''))\<rparr>, [])\<close>
    by (simp add: handler_def try_block_def parsed post)
  from without_image empty_image null_image show ?thesis
    using food_scan_missing_image [OF m a, of "js ''secret''"]
      food_scan_missing_image [OF m b, of "js ''secret''"]
      food_scan_missing_image [OF m c, of "js ''secret''"]
    by simp
qed

subsection \<open>The body of a successful response\<close>

text \<open>
  Claim C5, as stated, fails: the handler passes on whatever JSON the model's reply holds.
  Here the reply is an object with one field, a text; the response is 200 with that object.
\<close>

theorem food_scan_unchecked_reply_example:
  "rsp_status (fst (handler (example_env reply_unknown table_unknown) (js ''secret'') example_request))
     = 200
   \<and> rsp_body (fst (handler (example_env reply_unknown table_unknown) (js ''secret'') example_request))
     = Json (Obj [(js ''calories_kcal'', Str (js ''unknown''))])
   \<and> \<not> four_numeric_fields (Obj [(js ''calories_kcal'', Str (js ''unknown''))])"
proof -
  have "JSON_parse (example_env reply_unknown table_unknown) (jsonString reply_unknown)
          = Inr (Obj [(js ''calories_kcal'', Str (js ''unknown''))])"
    by (simp only: jsonString_reply_unknown parse_unknown)
  from example_handler [OF this, of "js ''secret''"] show ?thesis
    by (simp add: four_numeric_fields_def is_number_def)
qed

text \<open>
  Claim C5, amended. A response with status 200 is either the answer \<open>ok\<close> to an
  \<open>OPTIONS\<close> request, or its body is the JSON text of the value \<open>nutritionData\<close>:
  what \<open>JSON.parse\<close> makes of the text of the first part of the first candidate of the
  upstream reply, once the fences are taken out and the rest is trimmed. Nothing checks
  which fields that value has.
\<close>

theorem food_scan_success_body:
  assumes "rsp_status (fst (handler env GEMINI_API_KEY req)) = 200"
  shows "(req_method req = js ''OPTIONS''
            \<and> rsp_body (fst (handler env GEMINI_API_KEY req)) = Text (js ''ok''))
       \<or> (\<exists>parsed image_data geminiResponse geminiData t nutritionData.
             JSON_parse env (req_body req) = Inr parsed
           \<and> js_member parsed (js ''image'') = Inr image_data
           \<and> fetch env (gemini_request GEMINI_API_KEY image_data) = Inr geminiResponse
           \<and> JSON_parse env (res_text geminiResponse) = Inr geminiData
           \<and> reply_text geminiData = Inr t
           \<and> JSON_parse env (jsonString t) = Inr nutritionData
           \<and> rsp_body (fst (handler env GEMINI_API_KEY req)) = Json nutritionData)"
  using assms
  by (auto simp: handler_def try_block_def and_then_def split: sum.splits if_splits prod.splits)

text \<open>The witness: a reply that does hold the four numbers.\<close>

theorem food_scan_success_body_witness:
  "rsp_status (fst (handler (example_env reply_meal [(meal_text, meal)]) (js ''secret'') example_request))
     = 200
   \<and> rsp_body (fst (handler (example_env reply_meal [(meal_text, meal)]) (js ''secret'') example_request))
     = Json meal
   \<and> four_numeric_fields meal"
proof -
  have "JSON_parse (example_env reply_meal [(meal_text, meal)]) (jsonString reply_meal) = Inr meal"
    by (simp only: jsonString_reply_meal parse_meal_text)
  from example_handler [OF this, of "js ''secret''"] have
    s: "rsp_status (fst (handler (example_env reply_meal [(meal_text, meal)]) (js ''secret'')
          example_request)) = 200"
    and b: "rsp_body (fst (handler (example_env reply_meal [(meal_text, meal)]) (js ''secret'')
          example_request)) = Json meal"
    by simp_all
  have f: "four_numeric_fields meal"
    by (simp add: four_numeric_fields_def meal_def nutrition_keys_def is_number_def js_def)
  from food_scan_success_body [OF s] example_request_image(3) have
    "\<exists>nutritionData. rsp_body (fst (handler (example_env reply_meal [(meal_text, meal)])
        (js ''secret'') example_request)) = Json nutritionData"
    by blast
  with s b f show ?thesis
    by simp
qed

subsection \<open>A reply wrapped in fences\<close>

text \<open>
  Claim C6, as stated, fails: both \<open>replace\<close> calls are global, so three backquotes
  inside the wrapped JSON go as well. For the reply
  \<open>```json{"note":"```"}```\<close> the value parsed is \<open>{"note":""}\<close>, not the wrapped
  object \<open>{"note":"```"}\<close>.
\<close>

theorem food_scan_inner_fence_example:
  \<open>reply_note = js ''```json'' @ js ''{"note":"```"}'' @ js ''```''
   \<and> rsp_body (fst (handler (example_env reply_note table_note) (js ''secret'') example_request))
     = Json (Obj [(js ''note'', Str [])])
   \<and> JSON_parse (example_env reply_note table_note) (js_trim (js ''{"note":"```"}''))
     = Inr (Obj [(js ''note'', Str (js ''```''))])
   \<and> Obj [(js ''note'', Str [])] \<noteq> Obj [(js ''note'', Str (js ''```''))]\<close>
proof -
  have t: \<open>reply_note = js ''```json'' @ js ''{"note":"```"}'' @ js ''```''\<close>
    by (simp add: reply_note_def js_def)
  have "JSON_parse (example_env reply_note table_note) (jsonString reply_note)
          = Inr (Obj [(js ''note'', Str [])])"
    by (simp only: jsonString_reply_note parse_note_empty)
  from example_handler [OF this, of "js ''secret''"] have
    b: "rsp_body (fst (handler (example_env reply_note table_note) (js ''secret'') example_request))
          = Json (Obj [(js ''note'', Str [])])"
    by simp
  have \<open>js_trim (js ''{"note":"```"}'') = js ''{"note":"```"}''\<close>
    by (simp add: js_trim_def js_space_def js_def)
  then have p: \<open>JSON_parse (example_env reply_note table_note) (js_trim (js ''{"note":"```"}''))
            = Inr (Obj [(js ''note'', Str (js ''```''))])\<close>
    by (simp only: parse_note_fence)
  have d: "Obj [(js ''note'', Str [])] \<noteq> Obj [(js ''note'', Str (js ''```''))]"
    by (simp add: js_def)
  from t b p d show ?thesis
    by (intro conjI)
qed

text \<open>
  Claim C6, amended. Let the request carry an image, the upstream call succeed, and the
  text of the reply be \<open>before ```json inner ``` after\<close>, where \<open>before\<close> and
  \<open>after\<close> are white space and \<open>inner\<close> has no three backquotes in a row. Then the
  value the handler parses, and answers with, is \<open>JSON.parse\<close> of \<open>inner\<close> trimmed.
\<close>

theorem food_scan_fenced_reply:
  assumes "req_method req \<noteq> js ''OPTIONS''"
    and "JSON_parse env (req_body req) = Inr parsed"
    and "js_member parsed (js ''image'') = Inr image_data"
    and "truthy image_data"
    and "fetch env (gemini_request GEMINI_API_KEY image_data) = Inr geminiResponse"
    and "res_ok geminiResponse"
    and "JSON_parse env (res_text geminiResponse) = Inr geminiData"
    and "reply_text geminiData = Inr t"
    and "t = before @ js ''```json'' @ inner @ js ''```'' @ after"
    and "list_all js_space before"
    and "list_all js_space after"
    and "\<not> occurs (js ''```'') inner"
  shows "try_block env GEMINI_API_KEY req
           = (JSON_parse env (js_trim inner), [gemini_request GEMINI_API_KEY image_data])
       \<and> (\<forall>nutritionData. JSON_parse env (js_trim inner) = Inr nutritionData \<longrightarrow>
             rsp_status (fst (handler env GEMINI_API_KEY req)) = 200
           \<and> rsp_body (fst (handler env GEMINI_API_KEY req)) = Json nutritionData)"
  using assms(1-8) jsonString_fenced [OF assms(9-12)]
  by (simp add: handler_def try_block_def and_then_def)

text \<open>
  The witness: the reply is a blank, the opening fence, a line feed, the four numbers, a
  line feed, the closing fence and a line feed.
\<close>

theorem food_scan_fenced_reply_witness:
  "reply_meal = [32] @ js ''```json'' @ ([10] @ meal_text @ [10]) @ js ''```'' @ [10]
   \<and> js_trim ([10] @ meal_text @ [10]) = meal_text
   \<and> rsp_status (fst (handler (example_env reply_meal [(meal_text, meal)]) (js ''secret'') example_request))
     = 200
   \<and> rsp_body (fst (handler (example_env reply_meal [(meal_text, meal)]) (js ''secret'') example_request))
     = Json meal"
proof -
  let ?env = "example_env reply_meal [(meal_text, meal)]"
  have t: "reply_meal = [32] @ js ''```json'' @ ([10] @ meal_text @ [10]) @ js ''```'' @ [10]"
    by (simp add: reply_meal_def meal_text_def)
  have trim: "js_trim ([10] @ meal_text @ [10]) = meal_text"
    by (simp add: js_trim_def js_space_def meal_text_def js_def)
  have h10: "list_all js_space [32]"
    by (simp add: js_space_def)
  have h11: "list_all js_space [10]"
    by (simp add: js_space_def)
  have h12: "\<not> occurs (js ''```'') ([10] @ meal_text @ [10])"
    by (simp add: meal_text_def js_def)
  have p: "JSON_parse ?env (js_trim ([10] @ meal_text @ [10])) = Inr meal"
    by (simp only: trim parse_meal_text)
  have h2: "JSON_parse ?env (req_body example_request) = Inr (Obj [(js ''image'', Str (js ''QUJD''))])"
    by (rule example_request_parsed)
  have h5: "fetch ?env (gemini_request (js ''secret'') (Str (js ''QUJD'')))
              = Inr \<lparr>res_ok = True, res_statusText = js ''OK'', res_text = upstream_body reply_meal\<rparr>"
    by (rule example_fetch)
  have h6: "res_ok \<lparr>res_ok = True, res_statusText = js ''OK'', res_text = upstream_body reply_meal\<rparr>"
    by simp
  have h7: "JSON_parse ?env
              (res_text \<lparr>res_ok = True, res_statusText = js ''OK'', res_text = upstream_body reply_meal\<rparr>)
              = Inr (upstream_data reply_meal)"
    by (simp add: example_upstream_parsed)
  from food_scan_fenced_reply
         [OF example_request_image(3) h2 example_request_image(1) example_request_image(2)
             h5 h6 h7 reply_text_upstream_data t h10 h11 h12]
    p
  have "rsp_status (fst (handler ?env (js ''secret'') example_request)) = 200
      \<and> rsp_body (fst (handler ?env (js ''secret'') example_request)) = Json meal"
    by simp
  with t trim show ?thesis
    by (intro conjI) simp_all
qed


end
